theory Spec2Isabelle
  imports
    Complex_Main
    "HOL-Library.Char_ord"
    "HOL-Library.List_Lexorder"
    "HOL-Library.Product_Lexorder"
    "HOL-Library.Sublist"
begin

section \<open>Conventions of the embedding\<close>

text \<open>
  The repository is a pandas/numpy pipeline. A data frame is modelled as the list of its
  rows (a \<^theory_text>\<open>record\<close> per row), a Python \<open>float\<close> as a \<open>real\<close> (the arithmetic is the
  exact one: rounding, overflow and NaN propagation of IEEE doubles are outside the model), a
  missing cell (NaN, NaT, None) as \<open>None\<close>, a Python \<open>int\<close> as \<open>int\<close>, a \<open>dict\<close>
  as an association list in insertion order or as a map, and a Python \<open>str\<close> as a
  \<open>string\<close> compared byte-wise. Names follow the source; a leading underscore of a Python
  name is dropped because an Isabelle name cannot begin with one.
\<close>

section \<open>config.py\<close>

text \<open>\<open>RecommendationWeights\<close>: the six base weights of the blender. \<open>asdict(base)\<close> is
  a dict with exactly these six keys, so the dict is modelled by the same record.\<close>

record recommendation_weights =
  taste :: real
  trend_app :: real
  hidden_gems :: real
  quality :: real
  friend :: real
  bubble :: real

definition default_recommendation_weights :: recommendation_weights where
  "default_recommendation_weights =
     \<lparr>taste = 0.5, trend_app = 0.15, hidden_gems = 0.2, quality = 0.15, friend = 0, bubble = 0\<rparr>"

section \<open>pinit/recommendation.py: adaptive weights\<close>

text \<open>\<open>sum(weights.values())\<close> over the six entries of the dict.\<close>

definition weights_total :: "recommendation_weights \<Rightarrow> real" where
  "weights_total w = taste w + trend_app w + hidden_gems w + quality w + friend w + bubble w"

text \<open>\<open>_adaptive_weights(base, history_size)\<close>, lines 12-26. The cold-start branch rewrites
  three entries; the total is taken over all six; a zero total returns the dict as it stands,
  any other total divides every entry by it.\<close>

definition adaptive_weights :: "recommendation_weights \<Rightarrow> int \<Rightarrow> recommendation_weights" where
  "adaptive_weights base history_size =
     (let taste_weight = taste base;
          weights =
            (if history_size < 5 then
               (let cold_ratio = real_of_int history_size / 5;
                    reduction = taste_weight * (1 - cold_ratio)
                in base\<lparr>taste := taste_weight * cold_ratio,
                        trend_app := trend_app base + reduction * 0.6,
                        quality := quality base + reduction * 0.4\<rparr>)
             else base);
          total = weights_total weights
      in if total = 0 then weights
         else \<lparr>taste = taste weights / total,
               trend_app = trend_app weights / total,
               hidden_gems = hidden_gems weights / total,
               quality = quality weights / total,
               friend = friend weights / total,
               bubble = bubble weights / total\<rparr>)"

section \<open>pinit/hidden_gems.py\<close>

definition MIN_MODEL_ROWS :: nat where
  "MIN_MODEL_ROWS = 50"

text \<open>\<open>np.isclose(a, b)\<close> with numpy's default tolerances \<open>rtol = 1e-05\<close> and
  \<open>atol = 1e-08\<close>: \<open>|a - b| <= atol + rtol * |b|\<close>.\<close>

definition np_isclose :: "real \<Rightarrow> real \<Rightarrow> bool" where
  "np_isclose a b \<longleftrightarrow> \<bar>a - b\<bar> \<le> 1 / 10 ^ 8 + (1 / 10 ^ 5) * \<bar>b\<bar>"

text \<open>\<open>_min_max_scale(values)\<close>, lines 44-49. The minimum and maximum of an empty series
  are NaN, and the result is then the empty series of zeros.\<close>

definition min_max_scale :: "real list \<Rightarrow> real list" where
  "min_max_scale values =
     (if values = [] then []
      else (let v_min = Min (set values);
                v_max = Max (set values)
            in if np_isclose v_min v_max then map (\<lambda>_. 0) values
               else map (\<lambda>v. (v - v_min) / (v_max - v_min)) values))"

text \<open>A row of the model frame built by \<open>_prepare_model_frame\<close>: the rating (rows without
  one are dropped there), the review count (missing counts are filled with 0 there) and the
  remaining feature columns, which only the regression reads.\<close>

record 'f model_row =
  m_rating :: real
  m_user_ratings_total :: real
  m_features :: 'f

text \<open>\<open>_fit_hype_model(model_df, min_reviews)\<close>, lines 110-173. The gradient-boosted
  regression is scikit-learn's, not the repository's: it enters as the parameter \<open>fit\<close>, which
  returns the fitted predictor of a frame, or \<open>None\<close> where \<open>pipe.fit\<close> raises;
  \<open>sklearn_available\<close> is the module flag \<open>_SKLEARN_AVAILABLE\<close>. The frame of
  \<open>_prepare_model_frame\<close> always has the column \<open>log_reviews\<close>, so the test for an empty
  feature list at line 122 never fires and is left out. \<open>np.log1p(c)\<close> is \<open>ln (1 + c)\<close>.\<close>

definition fit_hype_model ::
  "bool \<Rightarrow> ('f model_row list \<Rightarrow> ('f model_row \<Rightarrow> real) option) \<Rightarrow> 'f model_row list \<Rightarrow> int
     \<Rightarrow> (real list \<times> real list \<times> real list) option" where
  "fit_hype_model sklearn_available fit model_df min_reviews =
     (if \<not> sklearn_available then None
      else if length model_df < MIN_MODEL_ROWS then None
      else (case fit model_df of
              None \<Rightarrow> None
            | Some predict \<Rightarrow>
               (let y = map m_rating model_df;
                    expected_rating = map predict model_df;
                    hype_residual = map2 (\<lambda>a e. a - e) y expected_rating;
                    review_counts = map m_user_ratings_total model_df;
                    review_weight = min_max_scale (map (\<lambda>c. ln (1 + c)) review_counts);
                    signal0 = map (max 0) hype_residual;
                    signal1 = map2 (\<lambda>s w. s * (0.35 + 0.65 * w)) signal0 review_weight;
                    signal = map2 (\<lambda>s c. if real_of_int min_reviews \<le> c then s else 0)
                                  signal1 review_counts
                in Some (expected_rating, hype_residual, signal))))"

section \<open>Strings\<close>

text \<open>\<open>str.lower()\<close> on the ASCII letters (a byte outside \<open>A..Z\<close> is left as it is).\<close>

definition lower_char :: "char \<Rightarrow> char" where
  "lower_char c =
     (case map_of (zip ''ABCDEFGHIJKLMNOPQRSTUVWXYZ'' ''abcdefghijklmnopqrstuvwxyz'') c of
        Some l \<Rightarrow> l
      | None \<Rightarrow> c)"

definition str_lower :: "string \<Rightarrow> string" where
  "str_lower s = map lower_char s"

section \<open>pinit/tagging.py: tags mined from reviews\<close>

text \<open>\<open>ReviewTagConfig\<close> of config.py.\<close>

record review_tag_config =
  min_unique_authors :: int
  min_mentions :: int
  english_only :: bool
  score_floor :: real
  score_cap :: real

definition default_review_tag_config :: review_tag_config where
  "default_review_tag_config =
     \<lparr>min_unique_authors = 2, min_mentions = 3, english_only = True,
      score_floor = 20, score_cap = 100\<rparr>"

text \<open>A row of the review table, as \<open>load_reviews\<close> leaves it (the venue id resolved, missing
  text, language and author filled in).\<close>

record review =
  r_location_id :: int
  r_language :: string
  r_author_name :: string
  r_text :: string

text \<open>\<open>REVIEW_TAG_KEYWORDS\<close>, lines 22-44, in the dict's order.\<close>

definition REVIEW_TAG_KEYWORDS :: "(string \<times> string list) list" where
  "REVIEW_TAG_KEYWORDS =
    [(''cozy'', [''cozy'', ''cosy'', ''snug'', ''warm lighting'']),
     (''romantic'', [''romantic'', ''date night'', ''special date'']),
     (''lively'', [''lively'', ''buzzy'', ''energetic'', ''party'']),
     (''quiet'', [''quiet'', ''peaceful'', ''calm'', ''relaxed'']),
     (''trendy'', [''trendy'', ''instagrammable'', ''aesthetic'']),
     (''casual'', [''casual'', ''laid back'', ''chill vibes'']),
     (''formal'', [''formal'', ''fine dining'', ''tasting menu'']),
     (''family_friendly'', [''family'', ''kids'', ''child friendly'', ''pram'']),
     (''date_night'', [''date night'', ''romantic'', ''anniversary'']),
     (''brunch'', [''brunch'', ''poached eggs'', ''avocado toast'']),
     (''quick_bite'', [''quick bite'', ''fast service'', ''grab and go'']),
     (''group_hang'', [''group of friends'', ''hen party'', ''stag do'']),
     (''business_meeting'', [''business meeting'', ''client lunch'', ''power lunch'']),
     (''solo_friendly'', [''solo'', ''ate alone'', ''counter seating'']),
     (''cocktails'', [''cocktails'', ''mixology'', ''negroni'', ''margarita'']),
     (''wine_bar'', [''wine list'', ''sommelier'', ''wine flight'']),
     (''craft_beer'', [''craft beer'', ''tap list'', ''ipa'', ''lager'']),
     (''vegetarian_friendly'', [''vegetarian options'', ''vegetarian friendly'']),
     (''vegan_friendly'', [''vegan options'', ''plant based'', ''plant-based'']),
     (''halal_friendly'', [''halal'', ''halal friendly'']),
     (''gluten_free_options'', [''gluten free'', ''gluten-free'', ''celiac''])]"

text \<open>A record appended by \<open>_add_tag_record\<close>, lines 188-197; the JSON metadata is kept as
  its key-value pairs.\<close>

record tag_record =
  tr_location_id :: int
  tr_tag_text :: string
  tr_score :: real
  tr_source :: string
  tr_metadata :: "(string \<times> int) list"

definition add_tag_record ::
  "tag_record list \<Rightarrow> int \<Rightarrow> string \<Rightarrow> real \<Rightarrow> string \<Rightarrow> (string \<times> int) list \<Rightarrow> tag_record list" where
  "add_tag_record records location_id tag_text score source metadata =
     records @ [\<lparr>tr_location_id = location_id, tr_tag_text = tag_text, tr_score = score,
                  tr_source = source, tr_metadata = metadata\<rparr>]"

text \<open>Lines 286-291: the tags of which some keyword occurs in the lowered text (\<open>kw in text\<close>
  is the substring test), each tag at most once, in the order of the keyword table.\<close>

definition found_tags :: "string \<Rightarrow> string list" where
  "found_tags txt =
     map fst (filter (\<lambda>(tag_text, keywords). \<exists>kw \<in> set keywords. sublist kw txt)
                REVIEW_TAG_KEYWORDS)"

text \<open>The dict \<open>grouped\<close>: keys (venue id, tag) in insertion order, each with its set of
  authors and its mention count. \<open>add_hit\<close> is lines 296-298 for one key:
  \<open>setdefault\<close>, one more mention, the author added to the set.\<close>

type_synonym review_group = "(int \<times> string) \<times> (string set \<times> nat)"

fun add_hit :: "int \<times> string \<Rightarrow> string \<Rightarrow> review_group list \<Rightarrow> review_group list" where
  "add_hit key author [] = [(key, ({author}, 1))]"
| "add_hit key author ((k, (authors, mentions)) # grouped) =
     (if k = key then (k, (insert author authors, mentions + 1)) # grouped
      else (k, (authors, mentions)) # add_hit key author grouped)"

text \<open>Lines 279-298: the frame filtered to English when configured, the text lowered, and
  every hit of every row entered into \<open>grouped\<close>. \<open>row.author_name or "anon"\<close> replaces an
  empty author name.\<close>

definition review_groups :: "review_tag_config \<Rightarrow> review list \<Rightarrow> review_group list" where
  "review_groups config reviews =
     (let df = (if english_only config then filter (\<lambda>r. prefix ''en'' (r_language r)) reviews
                else reviews)
      in fold (\<lambda>row grouped.
                 fold (\<lambda>tag_text g.
                         add_hit (r_location_id row, tag_text)
                           (if r_author_name row = [] then ''anon'' else r_author_name row) g)
                      (found_tags (str_lower (r_text row))) grouped)
              df [])"

text \<open>Lines 300-316, the loop over \<open>grouped.items()\<close>; \<open>math.log1p(n)\<close> is \<open>ln (1 + n)\<close>.\<close>

fun review_group_records ::
  "review_tag_config \<Rightarrow> review_group list \<Rightarrow> tag_record list \<Rightarrow> tag_record list" where
  "review_group_records config [] records = records"
| "review_group_records config (((location_id, tag_text), (authors, mentions)) # grouped) records =
     (let unique_authors = card authors in
      if int unique_authors < min_unique_authors config \<and> int mentions < min_mentions config
      then review_group_records config grouped records
      else (let score = score_floor config + 15 * ln (1 + real unique_authors)
                          + 10 * ln (1 + real mentions);
                score = min (score_cap config) score
            in review_group_records config grouped
                 (add_tag_record records location_id tag_text score ''reviews''
                    [(''mentions'', int mentions), (''unique_authors'', int unique_authors)])))"

text \<open>\<open>_review_tag_records(reviews, config)\<close>, lines 274-316.\<close>

definition review_tag_records :: "review list \<Rightarrow> review_tag_config \<Rightarrow> tag_record list" where
  "review_tag_records reviews config =
     (if reviews = [] then []
      else review_group_records config (review_groups config reviews) [])"

text \<open>The retention gate and the confidence of a group as the specification words them, to
  be compared with the loop above.\<close>

definition review_group_retained :: "review_tag_config \<Rightarrow> nat \<Rightarrow> nat \<Rightarrow> bool" where
  "review_group_retained config unique_authors mentions \<longleftrightarrow>
     min_unique_authors config \<le> int unique_authors \<or> min_mentions config \<le> int mentions"

definition review_confidence :: "review_tag_config \<Rightarrow> nat \<Rightarrow> nat \<Rightarrow> real" where
  "review_confidence config unique_authors mentions =
     min (score_cap config)
         (score_floor config + 15 * ln (1 + real unique_authors) + 10 * ln (1 + real mentions))"

definition review_group_record :: "review_tag_config \<Rightarrow> review_group \<Rightarrow> tag_record" where
  "review_group_record config g =
     (case g of ((location_id, tag_text), (authors, mentions)) \<Rightarrow>
        \<lparr>tr_location_id = location_id, tr_tag_text = tag_text,
         tr_score = review_confidence config (card authors) mentions,
         tr_source = ''reviews'',
         tr_metadata = [(''mentions'', int mentions), (''unique_authors'', int (card authors))]\<rparr>)"

section \<open>The shared tables\<close>

text \<open>A row of the venue table of \<open>load_locations\<close>, with the columns the scoring code
  reads. Coordinates, rating, review count and price level may be missing. The venue ids are
  assigned by \<open>np.arange(len(df)) + 1\<close>; the functions below do not rely on it.\<close>

record location =
  location_id :: int
  google_place_id :: string
  name :: string
  vicinity :: string
  cuisine_primary :: string
  lat :: "real option"
  lng :: "real option"
  rating :: "real option"
  user_ratings_total :: "real option"
  price_level :: "real option"
  popularity_score :: real
  hidden_gem_score :: real
  quality_score :: real

text \<open>A row of the venue-tag table (\<open>location_id\<close>, \<open>tag_id\<close>, \<open>tag_text\<close>,
  \<open>score\<close>), the four columns the profile builder and both recommenders select.\<close>

record location_tag =
  lt_location_id :: int
  lt_tag_id :: int
  lt_tag_text :: string
  lt_score :: real

text \<open>A row of the user-tag table: the 0-100 score and, from the JSON metadata, the raw
  accumulated sum (\<open>raw_score\<close>).\<close>

record user_tag =
  ut_user_id :: string
  ut_tag_id :: int
  ut_tag_text :: string
  ut_score :: real
  ut_raw_score :: real

text \<open>A row of the user-history table (\<open>user_id\<close>, \<open>n_actions\<close>).\<close>

record user_history_row =
  uh_user_id :: string
  uh_n_actions :: int

text \<open>A row of the action log. \<open>created_at\<close> is the parsed timestamp in seconds, \<open>None\<close>
  where \<open>pd.to_datetime(..., errors="coerce")\<close> yields NaT; a log without the column
  \<open>created_at\<close> is a log whose every timestamp is \<open>None\<close> (the decay is 1 in both cases).
  The profile builder adds the resolved venue id and then the weight.\<close>

record user_action =
  ua_user_id :: string
  ua_place_id :: string
  ua_action :: string
  ua_created_at :: "real option"

record resolved_action = user_action +
  ra_location_id :: int

record weighted_action = resolved_action +
  wa_weight :: real

text \<open>\<open>locations.set_index("google_place_id")["location_id"].to_dict()\<close>: of two rows with
  the same key the later one wins.\<close>

definition place_to_location :: "location list \<Rightarrow> string \<Rightarrow> int option" where
  "place_to_location locations =
     map_of (rev (map (\<lambda>l. (google_place_id l, location_id l)) locations))"

text \<open>\<open>actions["place_id"].map(place_to_location)\<close> followed by \<open>dropna\<close>: the actions
  whose place resolves, each with its venue id.\<close>

definition resolve_actions :: "location list \<Rightarrow> user_action list \<Rightarrow> resolved_action list" where
  "resolve_actions locations user_actions =
     List.map_filter
       (\<lambda>a. case place_to_location locations (ua_place_id a) of
               None \<Rightarrow> None
             | Some l \<Rightarrow> Some \<lparr>ua_user_id = ua_user_id a, ua_place_id = ua_place_id a,
                               ua_action = ua_action a, ua_created_at = ua_created_at a,
                               ra_location_id = l\<rparr>)
       user_actions"

section \<open>Data-frame operations\<close>

text \<open>\<open>groupby(keys)[col].sum().reset_index()\<close>: one row per distinct key, in the sorted
  order of the keys, with the sum of the column over the rows of that key.\<close>

definition groupby_sum :: "('k::linorder \<times> real) list \<Rightarrow> ('k \<times> real) list" where
  "groupby_sum rows =
     map (\<lambda>k. (k, sum_list (map snd (filter (\<lambda>p. fst p = k) rows))))
         (sorted_list_of_set (set (map fst rows)))"

text \<open>\<open>groupby(key).size().reset_index()\<close>.\<close>

definition groupby_size :: "'k::linorder list \<Rightarrow> ('k \<times> nat) list" where
  "groupby_size keys =
     map (\<lambda>k. (k, length (filter (\<lambda>x. x = k) keys))) (sorted_list_of_set (set keys))"

text \<open>\<open>groupby(key).head(n)\<close> for \<open>n \<ge> 0\<close>: the rows of which fewer than \<open>n\<close> earlier
  rows have the same key (pandas keeps the rows with \<open>cumcount < n\<close>), in their order.\<close>

definition groupby_head :: "nat \<Rightarrow> ('a \<Rightarrow> 'k) \<Rightarrow> 'a list \<Rightarrow> 'a list" where
  "groupby_head n key rows =
     map (\<lambda>i. rows ! i)
         (filter (\<lambda>i. length (filter (\<lambda>y. key y = key (rows ! i)) (take i rows)) < n)
                 [0..<length rows])"

text \<open>\<open>DataFrame.head(n)\<close> and the slice \<open>rows[:n]\<close>: the first \<open>n\<close> rows, and for a
  negative \<open>n\<close> all rows but the last \<open>-n\<close>.\<close>

definition head_rows :: "int \<Rightarrow> 'a list \<Rightarrow> 'a list" where
  "head_rows n rows =
     (if 0 \<le> n then take (nat n) rows else take (length rows - nat (- n)) rows)"

section \<open>recommendation/user_profiles.py\<close>

text \<open>\<open>DEFAULT_ACTION_WEIGHTS\<close> and \<open>RECENCY_HALFLIFE_DAYS\<close> of config.py, lines 29-38.\<close>

definition DEFAULT_ACTION_WEIGHTS :: "(string \<times> real) list" where
  "DEFAULT_ACTION_WEIGHTS =
     [(''save'', 3.0), (''like'', 2.0), (''share_to_bubble'', 2.5),
      (''detail_view'', 0.5), (''impression'', 0.1), (''dismiss'', - 1.5)]"

definition RECENCY_HALFLIFE_DAYS :: real where
  "RECENCY_HALFLIFE_DAYS = 30"

text \<open>\<open>df["action"].map(DEFAULT_ACTION_WEIGHTS).fillna(0.0)\<close> for one (lowered) action
  type.\<close>

definition action_type_weight :: "string \<Rightarrow> real" where
  "action_type_weight a = (case map_of DEFAULT_ACTION_WEIGHTS a of None \<Rightarrow> 0 | Some w \<Rightarrow> w)"

text \<open>Lines 96-98 for one timestamp: the age in days at the clock reading \<open>now\<close>
  (\<open>pd.Timestamp.utcnow()\<close>, in seconds), 0 for NaT, clipped below at 0.\<close>

definition action_age_days :: "real \<Rightarrow> real option \<Rightarrow> real" where
  "action_age_days now created_at =
     (case created_at of None \<Rightarrow> 0 | Some t \<Rightarrow> max 0 ((now - t) / 86400))"

text \<open>\<open>_apply_action_weights(actions)\<close>, lines 91-104. The wall clock read at line 97 is
  the parameter \<open>now\<close>.\<close>

definition apply_action_weights :: "real \<Rightarrow> resolved_action list \<Rightarrow> weighted_action list" where
  "apply_action_weights now actions =
     (let df = map (\<lambda>a. \<lparr>ua_user_id = ua_user_id a, ua_place_id = ua_place_id a,
                          ua_action = str_lower (ua_action a),
                          ua_created_at = ua_created_at a,
                          ra_location_id = ra_location_id a,
                          wa_weight = action_type_weight (str_lower (ua_action a))\<rparr>) actions;
          df = map (\<lambda>a. a\<lparr>wa_weight :=
                           wa_weight a
                           * exp (- action_age_days now (ua_created_at a) / RECENCY_HALFLIFE_DAYS)\<rparr>)
                   df
      in filter (\<lambda>a. wa_weight a \<noteq> 0) df)"

text \<open>Lines 130-146: the inner join of the weighted actions with the venue tags on the
  venue id, the contribution \<open>weight * (score / 100)\<close> of every joined row, and the sum per
  (user, tag id, tag text).\<close>

definition merged_contribs ::
  "weighted_action list \<Rightarrow> location_tag list \<Rightarrow> ((string \<times> int \<times> string) \<times> real) list" where
  "merged_contribs df_actions location_tags =
     concat (map (\<lambda>a. map (\<lambda>t. ((ua_user_id a, lt_tag_id t, lt_tag_text t),
                                   wa_weight a * (lt_score t / 100)))
                           (filter (\<lambda>t. lt_location_id t = ra_location_id a) location_tags))
                 df_actions)"

definition tag_contributions ::
  "real \<Rightarrow> user_action list \<Rightarrow> location_tag list \<Rightarrow> location list
     \<Rightarrow> ((string \<times> int \<times> string) \<times> real) list" where
  "tag_contributions now user_actions location_tags locations =
     groupby_sum (merged_contribs
       (apply_action_weights now (resolve_actions locations user_actions)) location_tags)"

text \<open>\<open>group["contrib"].max()\<close> on the rows of one group (line 149).\<close>

definition max_val :: "((string \<times> int \<times> string) \<times> real) list \<Rightarrow> real" where
  "max_val grp = Max (set (map snd grp))"

text \<open>\<open>_normalize(group)\<close>, lines 148-154, on the rows of one user.\<close>

definition normalize_group :: "((string \<times> int \<times> string) \<times> real) list \<Rightarrow> user_tag list" where
  "normalize_group grp =
     map (\<lambda>((user_id, tag_id, tag_text), contrib).
            \<lparr>ut_user_id = user_id, ut_tag_id = tag_id, ut_tag_text = tag_text,
             ut_score = (if max_val grp \<le> 0 then 0 else (contrib / max_val grp) * 100),
             ut_raw_score = contrib\<rparr>)
         grp"

text \<open>The group of one user in \<open>agg.groupby("user_id")\<close>: the rows of that user, in
  their order.\<close>

definition user_group ::
  "((string \<times> int \<times> string) \<times> real) list \<Rightarrow> string
     \<Rightarrow> ((string \<times> int \<times> string) \<times> real) list" where
  "user_group agg u = filter (\<lambda>row. fst (fst row) = u) agg"

text \<open>\<open>agg.groupby("user_id", group_keys=False).apply(_normalize)\<close>: the groups in the sorted
  order of the users.\<close>

definition normalize_by_user :: "((string \<times> int \<times> string) \<times> real) list \<Rightarrow> user_tag list" where
  "normalize_by_user agg =
     concat (map (\<lambda>u. normalize_group (user_group agg u))
                 (sorted_list_of_set (set (map (\<lambda>row. fst (fst row)) agg))))"

text \<open>\<open>build_user_tag_affinities(user_actions, location_tags, locations)\<close>, lines 107-171,
  with the clock reading as first argument. The sort by (user ascending, score descending)
  and the sort of the history by descending count are taken to keep equal rows in their
  order.\<close>

definition build_user_tag_affinities ::
  "real \<Rightarrow> user_action list \<Rightarrow> location_tag list \<Rightarrow> location list
     \<Rightarrow> user_tag list \<times> user_history_row list" where
  "build_user_tag_affinities now user_actions location_tags locations =
     (if user_actions = [] \<or> location_tags = [] then ([], [])
      else
        (let df_actions = apply_action_weights now (resolve_actions locations user_actions)
         in if df_actions = [] then ([], [])
            else
              (let merged = merged_contribs df_actions location_tags
               in if merged = [] then ([], [])
                  else
                    (let agg = groupby_sum merged;
                         normalized = normalize_by_user agg;
                         normalized = sort_key (\<lambda>r. (ut_user_id r, - ut_score r)) normalized;
                         normalized = groupby_head 25 ut_user_id normalized;
                         user_history =
                           sort_key (\<lambda>h. - uh_n_actions h)
                             (map (\<lambda>(u, n). \<lparr>uh_user_id = u, uh_n_actions = int n\<rparr>)
                                  (groupby_size (map ua_user_id df_actions)))
                     in (normalized, user_history)))))"

section \<open>recommendation/proximal_recommendation.py\<close>

text \<open>\<open>ProximalConfig\<close>, lines 19-27, with its defaults.\<close>

record proximal_config =
  radius_km :: real
  min_results :: int
  max_results :: int
  taste_weight :: real
  proximity_weight :: real
  quality_weight :: real

definition default_proximal_config :: proximal_config where
  "default_proximal_config =
     \<lparr>radius_km = 2.0, min_results = 10, max_results = 50, taste_weight = 0.2,
      proximity_weight = 0.6, quality_weight = 0.2\<rparr>"

text \<open>\<open>math.radians\<close>.\<close>

definition radians :: "real \<Rightarrow> real" where
  "radians x = x * (pi / 180)"

text \<open>\<open>haversine_distance(lat1, lon1, lat2, lon2)\<close>, lines 30-56. Over the reals the
  argument of the square root lies in \<open>[0, 1]\<close>, so \<open>math.asin\<close> never raises.\<close>

definition haversine_distance :: "real \<Rightarrow> real \<Rightarrow> real \<Rightarrow> real \<Rightarrow> real" where
  "haversine_distance lat1 lon1 lat2 lon2 =
     (let lat1_rad = radians lat1;
          lat2_rad = radians lat2;
          delta_lat = radians (lat2 - lat1);
          delta_lon = radians (lon2 - lon1);
          a = (sin (delta_lat / 2))\<^sup>2
              + cos lat1_rad * cos lat2_rad * (sin (delta_lon / 2))\<^sup>2;
          c = 2 * arcsin (sqrt a);
          r = 6371
      in c * r)"

text \<open>\<open>calculate_distances(center_lat, center_lon, locations)\<close>, lines 59-90: one distance
  per venue, and \<open>float('inf')\<close>, here \<open>None\<close>, for a venue without coordinates.\<close>

definition calculate_distances :: "real \<Rightarrow> real \<Rightarrow> location list \<Rightarrow> real option list" where
  "calculate_distances center_lat center_lon locations =
     map (\<lambda>row. case (lat row, lng row) of
                   (Some la, Some lo) \<Rightarrow> Some (haversine_distance center_lat center_lon la lo)
                 | _ \<Rightarrow> None)
         locations"

text \<open>A venue row with the added column \<open>distance_km\<close>.\<close>

record nearby_location = location +
  distance_km :: real

text \<open>\<open>filter_by_radius(center_lat, center_lon, locations, radius_km)\<close>, lines 93-117: the
  venues at a distance of at most the radius (an infinite distance is never within a finite
  radius), sorted by distance. The sort is taken to keep venues at equal distance in their
  order.\<close>

definition filter_by_radius ::
  "real \<Rightarrow> real \<Rightarrow> location list \<Rightarrow> real \<Rightarrow> nearby_location list" where
  "filter_by_radius center_lat center_lon locations radius =
     (let distances = calculate_distances center_lat center_lon locations;
          result = List.map_filter
                     (\<lambda>(row, d). case d of
                                    None \<Rightarrow> None
                                  | Some d \<Rightarrow> if d \<le> radius
                                              then Some (location.extend row
                                                           (nearby_location.fields d))
                                              else None)
                     (zip locations distances)
      in sort_key distance_km result)"

text \<open>\<open>compute_taste_score(user_id, location_ids, user_tags, location_tags)\<close>, lines
  120-168: the series indexed by the venue ids, as a function of the venue id. The three
  early returns give the series of zeros.\<close>

definition compute_taste_score ::
  "string \<Rightarrow> int list \<Rightarrow> user_tag list \<Rightarrow> location_tag list \<Rightarrow> int \<Rightarrow> real" where
  "compute_taste_score user_id location_ids user_tags location_tags =
     (let user_profile = filter (\<lambda>u. ut_user_id u = user_id) user_tags;
          relevant_tags = filter (\<lambda>t. lt_location_id t \<in> set location_ids) location_tags;
          merged = concat (map (\<lambda>u. map (\<lambda>t. (lt_location_id t,
                                                   (ut_score u / 100) * (lt_score t / 100)))
                                          (filter (\<lambda>t. lt_tag_id t = ut_tag_id u) relevant_tags))
                               user_profile);
          taste_scores = map (\<lambda>(l, s). (l, min s 1)) (groupby_sum merged)
      in if user_profile = [] \<or> relevant_tags = [] \<or> merged = [] then (\<lambda>_. 0)
         else (\<lambda>l. case map_of taste_scores l of None \<Rightarrow> 0 | Some s \<Rightarrow> s))"

text \<open>\<open>compute_proximity_score(distances, max_distance)\<close>, lines 171-183, for one distance.
  A radius of 0 divides by zero in the source and is outside the model.\<close>

definition compute_proximity_score :: "real \<Rightarrow> real \<Rightarrow> real" where
  "compute_proximity_score distance max_distance = exp (- 2 * distance / max_distance)"

text \<open>\<open>compute_quality_score(locations)\<close>, lines 186-206, for one venue.\<close>

definition compute_quality_score :: "'a location_scheme \<Rightarrow> real" where
  "compute_quality_score row =
     (let rating_score = (case rating row of None \<Rightarrow> 3 | Some x \<Rightarrow> x) / 5;
          review_score = ln (1 + (case user_ratings_total row of None \<Rightarrow> 0 | Some c \<Rightarrow> c)) / 10;
          review_score = min review_score 1
      in min (0.7 * rating_score + 0.3 * review_score) 1)"

text \<open>A row of the scored frame: the venue with its distance and the added columns. The
  column \<open>quality_score\<close> is the one of the venue row, which line 267 overwrites.\<close>

record proximal_recommendation = nearby_location +
  taste_score :: real
  proximity_score :: real
  final_score :: real
  rank :: int

text \<open>Lines 236-241 of \<open>build_proximal_recommendations\<close>: the venues within the radius of
  the configuration and, when there is none, the venues within twice that radius.\<close>

definition search_nearby ::
  "real \<Rightarrow> real \<Rightarrow> location list \<Rightarrow> proximal_config \<Rightarrow> nearby_location list" where
  "search_nearby center_lat center_lon locations config =
     (let nearby = filter_by_radius center_lat center_lon locations (radius_km config)
      in if nearby = []
         then filter_by_radius center_lat center_lon locations (radius_km config * 2)
         else nearby)"

text \<open>Lines 249-281: the three component scores of every venue found (the proximity score
  against \<open>config.radius_km\<close>), the weighted final score, the sort by descending final score
  (taken to keep venues with equal scores in their order) and the ranks from 1.\<close>

definition score_nearby ::
  "string \<Rightarrow> user_tag list \<Rightarrow> location_tag list \<Rightarrow> proximal_config \<Rightarrow> nearby_location list
     \<Rightarrow> proximal_recommendation list" where
  "score_nearby user_id user_tags location_tags config nearby =
     (let taste_scores = compute_taste_score user_id (map location_id nearby) user_tags
                           location_tags;
          nearby_copy =
            map (\<lambda>row.
                   (let t = taste_scores (location_id row);
                        p = compute_proximity_score (distance_km row) (radius_km config);
                        q = compute_quality_score row
                    in nearby_location.extend (row\<lparr>quality_score := q\<rparr>)
                         (proximal_recommendation.fields t p
                            (taste_weight config * t + proximity_weight config * p
                             + quality_weight config * q) 0)))
                nearby;
          nearby_copy = sort_key (\<lambda>row. - final_score row) nearby_copy
      in map2 (\<lambda>row i. row\<lparr>rank := i\<rparr>) nearby_copy [1..int (length nearby_copy)])"

text \<open>\<open>build_proximal_recommendations\<close>, lines 209-324. The column selection at the end drops
  columns and keeps the rows; the rows are returned here with all their columns. The
  recursive call is made with the radius tripled and the rest of the configuration as it is;
  it is made only when the tripled radius holds more venues than were found, so the number of
  venues outside the radius of the configuration decreases with every call.\<close>

function build_proximal_recommendations ::
  "string \<Rightarrow> real \<Rightarrow> real \<Rightarrow> location list \<Rightarrow> user_tag list \<Rightarrow> location_tag list
     \<Rightarrow> proximal_config \<Rightarrow> proximal_recommendation list" where
  "build_proximal_recommendations user_id center_lat center_lon locations user_tags location_tags
       config =
     (let nearby = search_nearby center_lat center_lon locations config
      in if nearby = [] then []
         else
           (let nearby_copy = score_nearby user_id user_tags location_tags config nearby;
                result = head_rows (max_results config) nearby_copy
            in if int (length result) < min_results config
                  \<and> int (length nearby_copy) < min_results config
               then
                 (let expanded = filter_by_radius center_lat center_lon locations
                                   (radius_km config * 3)
                  in if length nearby < length expanded
                     then build_proximal_recommendations user_id center_lat center_lon locations
                            user_tags location_tags (config\<lparr>radius_km := radius_km config * 3\<rparr>)
                     else result)
               else result))"
  by pat_completeness auto

termination
proof (relation "measure (\<lambda>(user_id, center_lat, center_lon, locations, user_tags, location_tags,
                             config).
           length locations
           - length (filter_by_radius center_lat center_lon locations (radius_km config)))")
  show "wf (measure (\<lambda>(user_id, center_lat, center_lon, locations, user_tags, location_tags,
                             config).
           length locations
           - length (filter_by_radius center_lat center_lon locations (radius_km config))))"
    by simp
next
  fix user_id :: string and center_lat center_lon locations and user_tags :: "user_tag list"
    and location_tags :: "location_tag list" and config :: proximal_config
    and nearby nearby_copy result expanded
  assume n: "nearby = search_nearby center_lat center_lon locations config"
    and e: "expanded = filter_by_radius center_lat center_lon locations (radius_km config * 3)"
    and lt: "length nearby < length expanded"
  have "length (filter_by_radius center_lat center_lon locations (radius_km config))
          \<le> length nearby"
    unfolding n search_nearby_def Let_def by simp
  with lt e have "length (filter_by_radius center_lat center_lon locations (radius_km config))
     < length (filter_by_radius center_lat center_lon locations (radius_km config * 3))"
    by simp
  moreover have "length (filter_by_radius center_lat center_lon locations (radius_km config * 3))
      \<le> length locations"
  proof -
    let ?zs = "zip locations (calculate_distances center_lat center_lon locations)"
    have "length (filter_by_radius center_lat center_lon locations (radius_km config * 3))
            \<le> length ?zs"
      unfolding filter_by_radius_def Let_def length_sort List.map_filter_def length_map
      by (rule length_filter_le)
    also have "\<dots> \<le> length locations" by simp
    finally show ?thesis .
  qed
  ultimately show "((user_id, center_lat, center_lon, locations, user_tags, location_tags,
            config\<lparr>radius_km := radius_km config * 3\<rparr>),
           user_id, center_lat, center_lon, locations, user_tags, location_tags, config)
          \<in> measure (\<lambda>(user_id, center_lat, center_lon, locations, user_tags, location_tags,
                             config).
           length locations
           - length (filter_by_radius center_lat center_lon locations (radius_km config)))"
    by simp
qed

declare build_proximal_recommendations.simps [simp del]

text \<open>The radii of the successive calls of \<open>build_proximal_recommendations\<close>: the same
  recursion, with the same tests, returning the radius of every configuration the function
  is entered with instead of the rows.\<close>

function expansion_radii ::
  "string \<Rightarrow> real \<Rightarrow> real \<Rightarrow> location list \<Rightarrow> user_tag list \<Rightarrow> location_tag list
     \<Rightarrow> proximal_config \<Rightarrow> real list" where
  "expansion_radii user_id center_lat center_lon locations user_tags location_tags config =
     (let nearby = search_nearby center_lat center_lon locations config
      in if nearby = [] then [radius_km config]
         else
           (let nearby_copy = score_nearby user_id user_tags location_tags config nearby;
                result = head_rows (max_results config) nearby_copy
            in if int (length result) < min_results config
                  \<and> int (length nearby_copy) < min_results config
               then
                 (let expanded = filter_by_radius center_lat center_lon locations
                                   (radius_km config * 3)
                  in if length nearby < length expanded
                     then radius_km config
                          # expansion_radii user_id center_lat center_lon locations
                              user_tags location_tags (config\<lparr>radius_km := radius_km config * 3\<rparr>)
                     else [radius_km config])
               else [radius_km config]))"
  by pat_completeness auto

termination
proof (relation "measure (\<lambda>(user_id, center_lat, center_lon, locations, user_tags, location_tags,
                             config).
           length locations
           - length (filter_by_radius center_lat center_lon locations (radius_km config)))")
  show "wf (measure (\<lambda>(user_id, center_lat, center_lon, locations, user_tags, location_tags,
                             config).
           length locations
           - length (filter_by_radius center_lat center_lon locations (radius_km config))))"
    by simp
next
  fix user_id :: string and center_lat center_lon locations and user_tags :: "user_tag list"
    and location_tags :: "location_tag list" and config :: proximal_config
    and nearby nearby_copy result expanded
  assume n: "nearby = search_nearby center_lat center_lon locations config"
    and e: "expanded = filter_by_radius center_lat center_lon locations (radius_km config * 3)"
    and lt: "length nearby < length expanded"
  have "length (filter_by_radius center_lat center_lon locations (radius_km config))
          \<le> length nearby"
    unfolding n search_nearby_def Let_def by simp
  with lt e have "length (filter_by_radius center_lat center_lon locations (radius_km config))
     < length (filter_by_radius center_lat center_lon locations (radius_km config * 3))"
    by simp
  moreover have "length (filter_by_radius center_lat center_lon locations (radius_km config * 3))
      \<le> length locations"
  proof -
    let ?zs = "zip locations (calculate_distances center_lat center_lon locations)"
    have "length (filter_by_radius center_lat center_lon locations (radius_km config * 3))
            \<le> length ?zs"
      unfolding filter_by_radius_def Let_def length_sort List.map_filter_def length_map
      by (rule length_filter_le)
    also have "\<dots> \<le> length locations" by simp
    finally show ?thesis .
  qed
  ultimately show "((user_id, center_lat, center_lon, locations, user_tags, location_tags,
            config\<lparr>radius_km := radius_km config * 3\<rparr>),
           user_id, center_lat, center_lon, locations, user_tags, location_tags, config)
          \<in> measure (\<lambda>(user_id, center_lat, center_lon, locations, user_tags, location_tags,
                             config).
           length locations
           - length (filter_by_radius center_lat center_lon locations (radius_km config)))"
    by simp
qed

declare expansion_radii.simps [simp del]

section \<open>Example inputs\<close>

text \<open>Concrete tables on which the theorems below are evaluated.\<close>

definition example_reviews :: "review list" where
  "example_reviews =
    [\<lparr>r_location_id = 7, r_language = ''en'', r_author_name = ''ann'', r_text = ''So Cozy''\<rparr>,
     \<lparr>r_location_id = 7, r_language = ''en-GB'', r_author_name = '''', r_text = ''snug''\<rparr>,
     \<lparr>r_location_id = 7, r_language = ''fr'', r_author_name = ''luc'', r_text = ''So Cozy''\<rparr>,
     \<lparr>r_location_id = 8, r_language = ''en'', r_author_name = ''bob'', r_text = ''Quiet''\<rparr>,
     \<lparr>r_location_id = 8, r_language = ''en'', r_author_name = ''bob'', r_text = ''Quiet''\<rparr>,
     \<lparr>r_location_id = 9, r_language = ''en'', r_author_name = ''bob'', r_text = ''Quiet''\<rparr>,
     \<lparr>r_location_id = 8, r_language = ''en'', r_author_name = ''bob'', r_text = ''Quiet''\<rparr>,
     \<lparr>r_location_id = 9, r_language = ''en'', r_author_name = ''cy'', r_text = ''good''\<rparr>]"

definition example_locations :: "location list" where
  "example_locations =
    [\<lparr>location_id = 1, google_place_id = ''p1'', name = ''Trattoria'', vicinity = ''Soho'',
      cuisine_primary = ''italian'', lat = Some 0, lng = Some 0, rating = Some 4.5,
      user_ratings_total = Some 120, price_level = Some 2, popularity_score = 50,
      hidden_gem_score = 10, quality_score = 80\<rparr>]"

definition example_location_tags :: "location_tag list" where
  "example_location_tags =
    [\<lparr>lt_location_id = 1, lt_tag_id = 10, lt_tag_text = ''italian'', lt_score = 90\<rparr>,
     \<lparr>lt_location_id = 1, lt_tag_id = 11, lt_tag_text = ''cozy'', lt_score = 45\<rparr>]"

definition like_actions :: "user_action list" where
  "like_actions =
    [\<lparr>ua_user_id = ''u1'', ua_place_id = ''p1'', ua_action = ''like'', ua_created_at = None\<rparr>]"

definition dismiss_actions :: "user_action list" where
  "dismiss_actions =
    [\<lparr>ua_user_id = ''u1'', ua_place_id = ''p1'', ua_action = ''Dismiss'',
      ua_created_at = None\<rparr>]"

text \<open>A model frame of 50 venues: 47 with rating 4.8 and 5 reviews, one with rating 4.0 and
  5000 reviews, one with rating 4.6 and 5000 reviews, one with rating 4.5 and 100 reviews.\<close>

definition example_model_df :: "unit model_row list" where
  "example_model_df =
     replicate 47 \<lparr>m_rating = 4.8, m_user_ratings_total = 5, m_features = ()\<rparr>
     @ [\<lparr>m_rating = 4.0, m_user_ratings_total = 5000, m_features = ()\<rparr>,
        \<lparr>m_rating = 4.6, m_user_ratings_total = 5000, m_features = ()\<rparr>,
        \<lparr>m_rating = 4.5, m_user_ratings_total = 100, m_features = ()\<rparr>]"

text \<open>A venue on the equator at the given longitude, rated 4.0, without reviews.\<close>

definition venue_at :: "int \<Rightarrow> real \<Rightarrow> location" where
  "venue_at i lon =
     \<lparr>location_id = i, google_place_id = ''place'', name = ''venue'', vicinity = [],
      cuisine_primary = [], lat = Some 0, lng = Some lon, rating = Some 4,
      user_ratings_total = Some 0, price_level = None, popularity_score = 0,
      hidden_gem_score = 0, quality_score = 0\<rparr>"

text \<open>Three venues between 2 km and 4 km east of the centre \<open>(0, 0)\<close>, and three venues
  within 2 km, between 2 km and 6 km and between 6 km and 18 km of it.\<close>

definition ring_venues :: "location list" where
  "ring_venues = [venue_at 1 0.02, venue_at 2 0.024, venue_at 3 0.028]"

definition spread_venues :: "location list" where
  "spread_venues = [venue_at 1 0.01, venue_at 2 0.025, venue_at 3 0.1]"

definition example_proximal_config :: proximal_config where
  "example_proximal_config =
     \<lparr>radius_km = 2, min_results = 5, max_results = 50, taste_weight = 0.2,
      proximity_weight = 0.6, quality_weight = 0.2\<rparr>"

section \<open>Properties of the adaptive weights\<close>

lemma cold_start_total:
  "weights_total (base\<lparr>taste := taste base * c,
                        trend_app := trend_app base + taste base * (1 - c) * 0.6,
                        quality := quality base + taste base * (1 - c) * 0.4\<rparr>)
   = weights_total base"
  by (simp add: weights_total_def field_simps)

lemma weights_total_divided:
  "weights_total \<lparr>taste = a / t, trend_app = b / t, hidden_gems = c / t,
                  quality = d / t, friend = e / t, bubble = f / t\<rparr>
   = (a + b + c + d + e + f) / t"
  by (simp add: weights_total_def add_divide_distrib)

lemma adaptive_weights_cold:
  assumes "history_size < 5"
  shows "adaptive_weights base history_size =
      (if weights_total base = 0 then
         \<lparr>taste = taste base * (real_of_int history_size / 5),
          trend_app = trend_app base + taste base * (1 - real_of_int history_size / 5) * 0.6,
          hidden_gems = hidden_gems base,
          quality = quality base + taste base * (1 - real_of_int history_size / 5) * 0.4,
          friend = friend base,
          bubble = bubble base\<rparr>
       else
         \<lparr>taste = taste base * (real_of_int history_size / 5) / weights_total base,
          trend_app = (trend_app base + taste base * (1 - real_of_int history_size / 5) * 0.6)
                        / weights_total base,
          hidden_gems = hidden_gems base / weights_total base,
          quality = (quality base + taste base * (1 - real_of_int history_size / 5) * 0.4)
                        / weights_total base,
          friend = friend base / weights_total base,
          bubble = bubble base / weights_total base\<rparr>)"
proof -
  let ?c = "real_of_int history_size / 5"
  let ?w = "base\<lparr>taste := taste base * ?c,
                  trend_app := trend_app base + taste base * (1 - ?c) * 0.6,
                  quality := quality base + taste base * (1 - ?c) * 0.4\<rparr>"
  have tot: "weights_total ?w = weights_total base"
    by (rule cold_start_total)
  have "adaptive_weights base history_size =
      (if weights_total ?w = 0 then ?w
       else \<lparr>taste = taste ?w / weights_total ?w,
             trend_app = trend_app ?w / weights_total ?w,
             hidden_gems = hidden_gems ?w / weights_total ?w,
             quality = quality ?w / weights_total ?w,
             friend = friend ?w / weights_total ?w,
             bubble = bubble ?w / weights_total ?w\<rparr>)"
    using assms(1) by (simp add: adaptive_weights_def Let_def)
  also have "\<dots> = (if weights_total base = 0 then ?w
       else \<lparr>taste = taste ?w / weights_total base,
             trend_app = trend_app ?w / weights_total base,
             hidden_gems = hidden_gems ?w / weights_total base,
             quality = quality ?w / weights_total base,
             friend = friend ?w / weights_total base,
             bubble = bubble ?w / weights_total base\<rparr>)"
    by (simp only: tot)
  finally show ?thesis by simp
qed

lemma adaptive_weights_warm:
  assumes "5 \<le> history_size"
  shows "adaptive_weights base history_size =
      (if weights_total base = 0 then base
       else \<lparr>taste = taste base / weights_total base,
             trend_app = trend_app base / weights_total base,
             hidden_gems = hidden_gems base / weights_total base,
             quality = quality base / weights_total base,
             friend = friend base / weights_total base,
             bubble = bubble base / weights_total base\<rparr>)"
  using assms by (simp add: adaptive_weights_def Let_def)

lemma cold_start_sum:
  "a * c + (b + a * (1 - c) * 0.6) + h + (q + a * (1 - c) * 0.4) + f + g
     = a + b + h + q + f + (g::real)"
  by (simp add: field_simps)

text \<open>
  Claim C6 (as amended). For a history size below 5 the taste weight is scaled by
  \<open>history_size / 5\<close> and the removed mass goes 60% to the trend weight and 40% to the
  quality weight, the other three weights staying as they are; this leaves the total of the
  six weights unchanged. If that total is zero the weights are returned as they then stand,
  without renormalising, and they sum to 0; otherwise every weight is divided by the total,
  and the result sums to 1. In both cases the taste weight of a user with history size 0 is
  exactly 0.
\<close>

theorem adaptive_weights_cold_start:
  assumes "history_size < 5"
  shows "adaptive_weights base history_size =
      (if weights_total base = 0 then
         \<lparr>taste = taste base * (real_of_int history_size / 5),
          trend_app = trend_app base + taste base * (1 - real_of_int history_size / 5) * 0.6,
          hidden_gems = hidden_gems base,
          quality = quality base + taste base * (1 - real_of_int history_size / 5) * 0.4,
          friend = friend base,
          bubble = bubble base\<rparr>
       else
         \<lparr>taste = taste base * (real_of_int history_size / 5) / weights_total base,
          trend_app = (trend_app base + taste base * (1 - real_of_int history_size / 5) * 0.6)
                        / weights_total base,
          hidden_gems = hidden_gems base / weights_total base,
          quality = (quality base + taste base * (1 - real_of_int history_size / 5) * 0.4)
                        / weights_total base,
          friend = friend base / weights_total base,
          bubble = bubble base / weights_total base\<rparr>)
       \<and> weights_total (adaptive_weights base history_size)
           = (if weights_total base = 0 then 0 else 1)
       \<and> taste (adaptive_weights base 0) = 0"
proof -
  note eq = adaptive_weights_cold [OF assms, of base]
  have total: "weights_total (adaptive_weights base history_size)
           = (if weights_total base = 0 then 0 else 1)"
  proof (cases "weights_total base = 0")
    case True
    have "weights_total (adaptive_weights base history_size)
        = taste base * (real_of_int history_size / 5)
           + (trend_app base + taste base * (1 - real_of_int history_size / 5) * 0.6)
           + hidden_gems base
           + (quality base + taste base * (1 - real_of_int history_size / 5) * 0.4)
           + friend base + bubble base"
      unfolding eq using True by (simp add: weights_total_def)
    also have "\<dots> = weights_total base"
      unfolding weights_total_def by (rule cold_start_sum)
    finally show ?thesis using True by simp
  next
    case False
    have "adaptive_weights base history_size =
         \<lparr>taste = taste base * (real_of_int history_size / 5) / weights_total base,
          trend_app = (trend_app base + taste base * (1 - real_of_int history_size / 5) * 0.6)
                        / weights_total base,
          hidden_gems = hidden_gems base / weights_total base,
          quality = (quality base + taste base * (1 - real_of_int history_size / 5) * 0.4)
                        / weights_total base,
          friend = friend base / weights_total base,
          bubble = bubble base / weights_total base\<rparr>"
      unfolding eq using False by (simp only: if_False)
    then have "weights_total (adaptive_weights base history_size)
        = (taste base * (real_of_int history_size / 5)
           + (trend_app base + taste base * (1 - real_of_int history_size / 5) * 0.6)
           + hidden_gems base
           + (quality base + taste base * (1 - real_of_int history_size / 5) * 0.4)
           + friend base + bubble base) / weights_total base"
      by (simp only: weights_total_divided)
    also have "taste base * (real_of_int history_size / 5)
           + (trend_app base + taste base * (1 - real_of_int history_size / 5) * 0.6)
           + hidden_gems base
           + (quality base + taste base * (1 - real_of_int history_size / 5) * 0.4)
           + friend base + bubble base = weights_total base"
      unfolding weights_total_def by (rule cold_start_sum)
    finally show ?thesis using False by simp
  qed
  have zero: "taste (adaptive_weights base 0) = 0"
    using adaptive_weights_cold [of 0 base] by simp
  from eq total zero show ?thesis by (intro conjI)
qed

text \<open>The default weights at history size 2, and base weights whose total is zero (the taste
  and hidden-gem weights cancel) at history size 0.\<close>

theorem adaptive_weights_cold_start_witness:
  "(2::int) < 5
   \<and> adaptive_weights default_recommendation_weights 2 =
       \<lparr>taste = 0.2, trend_app = 0.33, hidden_gems = 0.2, quality = 0.27, friend = 0,
        bubble = 0\<rparr>
   \<and> weights_total (adaptive_weights default_recommendation_weights 2) = 1
   \<and> taste (adaptive_weights default_recommendation_weights 0) = 0"
proof -
  have t: "weights_total default_recommendation_weights = 1"
    by (simp add: weights_total_def default_recommendation_weights_def)
  have l: "(2::int) < 5" by simp
  have f: "taste default_recommendation_weights = 0.5"
      "trend_app default_recommendation_weights = 0.15"
      "hidden_gems default_recommendation_weights = 0.2"
      "quality default_recommendation_weights = 0.15"
      "friend default_recommendation_weights = 0"
      "bubble default_recommendation_weights = 0"
    by (simp_all add: default_recommendation_weights_def)
  show ?thesis
    using adaptive_weights_cold_start [OF l, of default_recommendation_weights]
    by (simp add: t f weights_total_def)
qed

text \<open>The claim as first stated has no proviso on the total: with base weights whose total
  is zero the guard \<open>total == 0\<close> returns the weights without renormalising, and they sum
  to 0, not to 1. This is so for weights that are all zero, and for weights that cancel, where
  the cold-start step is visible in the result.\<close>

theorem adaptive_weights_zero_total_counterexample:
  "weights_total (adaptive_weights
      \<lparr>taste = 0, trend_app = 0, hidden_gems = 0, quality = 0, friend = 0, bubble = 0\<rparr> 0) \<noteq> 1
   \<and> adaptive_weights
        \<lparr>taste = 0.5, trend_app = 0, hidden_gems = - 0.5, quality = 0, friend = 0, bubble = 0\<rparr> 0
      = \<lparr>taste = 0, trend_app = 0.3, hidden_gems = - 0.5, quality = 0.2, friend = 0, bubble = 0\<rparr>
   \<and> weights_total
        \<lparr>taste = 0, trend_app = 0.3, hidden_gems = - 0.5, quality = 0.2, friend = 0, bubble = 0\<rparr>
      \<noteq> 1"
  by (simp add: adaptive_weights_def weights_total_def Let_def)

section \<open>Properties of the hidden-gem signal\<close>

lemma length_min_max_scale [simp]: "length (min_max_scale values) = length values"
  by (simp add: min_max_scale_def Let_def)

text \<open>
  Claim C7. The primary path is taken exactly when scikit-learn is available, the model
  frame has at least 50 rows and the regression fits; \<open>_fit_hype_model\<close> then returns the
  expected ratings, the residuals (rating - expected rating) and the signal, and in every
  other case it returns nothing. The signal of a venue is the positive part of its residual
  times \<open>0.35 + 0.65 * w\<close>, where \<open>w\<close> is the venue's entry of the min-max scaling of
  \<open>log(1 + review_count)\<close> over the frame, when the venue has at least \<open>min_reviews\<close>
  reviews, and exactly 0 when it has fewer, whatever its residual. The min-max scaling of a
  series is \<open>(v - min) / (max - min)\<close>, and 0 throughout when the minimum and the maximum are
  close (or the series is empty).
\<close>

theorem hidden_gem_signal:
  "fit_hype_model sklearn_available fit model_df min_reviews =
     (if sklearn_available \<and> 50 \<le> length model_df then
        (case fit model_df of
           None \<Rightarrow> None
         | Some predict \<Rightarrow>
             Some (map predict model_df,
                   map (\<lambda>r. m_rating r - predict r) model_df,
                   map2 (\<lambda>r w. if m_user_ratings_total r < real_of_int min_reviews then 0
                                 else max 0 (m_rating r - predict r) * (0.35 + 0.65 * w))
                        model_df
                        (min_max_scale (map (\<lambda>r. ln (1 + m_user_ratings_total r)) model_df))))
      else None)
   \<and> min_max_scale values =
       (if values = [] \<or> np_isclose (Min (set values)) (Max (set values))
        then map (\<lambda>_. 0) values
        else map (\<lambda>v. (v - Min (set values)) / (Max (set values) - Min (set values))) values)"
proof -
  have a: "fit_hype_model sklearn_available fit model_df min_reviews =
     (if sklearn_available \<and> 50 \<le> length model_df then
        (case fit model_df of
           None \<Rightarrow> None
         | Some predict \<Rightarrow>
             Some (map predict model_df,
                   map (\<lambda>r. m_rating r - predict r) model_df,
                   map2 (\<lambda>r w. if m_user_ratings_total r < real_of_int min_reviews then 0
                                 else max 0 (m_rating r - predict r) * (0.35 + 0.65 * w))
                        model_df
                        (min_max_scale (map (\<lambda>r. ln (1 + m_user_ratings_total r)) model_df))))
      else None)"
    by (auto simp: fit_hype_model_def Let_def MIN_MODEL_ROWS_def not_le comp_def
        split: option.splits intro!: nth_equalityI)
  have b: "min_max_scale values =
       (if values = [] \<or> np_isclose (Min (set values)) (Max (set values))
        then map (\<lambda>_. 0) values
        else map (\<lambda>v. (v - Min (set values)) / (Max (set values) - Min (set values))) values)"
    by (simp add: min_max_scale_def Let_def)
  from a b show ?thesis by (rule conjI)
qed

lemma ln_lower: "0 < x \<Longrightarrow> 1 - 1 / x \<le> ln (x::real)"
proof -
  assume x: "0 < x"
  then have "ln (1 / x) \<le> 1 / x - 1" by (intro ln_le_minus_one) simp
  then show ?thesis using x by (simp add: ln_div)
qed

lemma ln_diff_lower: "0 < y \<Longrightarrow> 0 < x \<Longrightarrow> 1 - y / x \<le> ln x - ln (y::real)"
  using ln_lower [of "x / y"] by (simp add: ln_div)

lemma example_log_reviews:
  "ln (6::real) < ln 101" "ln (101::real) < ln 5001" "ln (6::real) < ln 5001"
  by simp_all

lemma example_not_close: "\<not> np_isclose (ln 6) (ln 5001)"
proof -
  have a': "1 / 2 \<le> ln 5001 - ln (6::real)"
    using ln_diff_lower [of 6 5001] by simp
  have b: "ln (5001::real) \<le> 5001 - 1" by (rule ln_le_minus_one) simp
  have d: "0 < ln (5001::real)" by simp
  from a' b d show ?thesis
    by (simp add: np_isclose_def abs_if)
qed

lemma example_review_weight:
  "min_max_scale (map (\<lambda>r. ln (1 + m_user_ratings_total r)) example_model_df)
     = replicate 47 0 @ [1, 1, (ln 101 - ln 6) / (ln 5001 - ln 6)]"
proof -
  have s: "set (map (\<lambda>r. ln (1 + m_user_ratings_total r)) example_model_df)
             = {ln 6, ln 5001, ln 101}"
    by (auto simp: example_model_df_def)
  have mn: "Min {ln (6::real), ln 5001, ln 101} = ln 6"
    using example_log_reviews by (simp add: min_def)
  have mx: "Max {ln (6::real), ln 5001, ln 101} = ln 5001"
    using example_log_reviews by (simp add: max_def)
  have ne: "map (\<lambda>r. ln (1 + m_user_ratings_total r)) example_model_df \<noteq> []"
    by (simp add: example_model_df_def)
  have "min_max_scale (map (\<lambda>r. ln (1 + m_user_ratings_total r)) example_model_df)
     = map (\<lambda>v. (v - ln 6) / (ln 5001 - ln 6))
           (map (\<lambda>r. ln (1 + m_user_ratings_total r)) example_model_df)"
    unfolding min_max_scale_def Let_def s mn mx using ne example_not_close
    by (simp only: if_False)
  also have "\<dots> = replicate 47 0 @ [1, 1, (ln 101 - ln 6) / (ln 5001 - ln 6)]"
    using example_log_reviews by (simp add: example_model_df_def)
  finally show ?thesis .
qed

text \<open>The example frame at \<open>min_reviews = 40\<close> with a regression that expects 4.2 everywhere:
  the 47 venues with 5 reviews have a positive residual and the signal 0; of the venues with
  5000 reviews the one rated below expectation has the signal 0 and the one rated 4.6 has
  its residual 0.4 at full weight; the venue with 100 reviews has its residual 0.3 at a
  weight strictly between 0.35 and 1.\<close>

theorem hidden_gem_signal_witness:
  "fit_hype_model True (\<lambda>_. Some (\<lambda>_. 4.2)) example_model_df 40
     = Some (replicate 47 4.2 @ [4.2, 4.2, 4.2],
             replicate 47 0.6 @ [- 0.2, 0.4, 0.3],
             replicate 47 0
               @ [0, 0.4, 0.3 * (0.35 + 0.65 * ((ln 101 - ln 6) / (ln 5001 - ln 6)))])"
proof -
  have len: "length example_model_df = 50" by (simp add: example_model_df_def)
  show ?thesis
    using hidden_gem_signal [of True "\<lambda>_. Some (\<lambda>_. 4.2)" example_model_df 40 "[]"]
    unfolding example_review_weight
    by (simp add: len) (simp add: example_model_df_def)
qed

section \<open>Properties of the review-derived tags\<close>

lemma review_group_records_eq:
  "review_group_records config grouped records =
     records @ map (review_group_record config)
       (filter (\<lambda>g. review_group_retained config (card (fst (snd g))) (snd (snd g))) grouped)"
proof (induction config grouped records rule: review_group_records.induct)
  case (1 config records)
  show ?case by simp
next
  case (2 config location_id tag_text authors mentions grouped records)
  show ?case
  proof (cases "int (card authors) < min_unique_authors config \<and> int mentions < min_mentions config")
    case True
    then have "\<not> review_group_retained config (card authors) mentions"
      by (simp add: review_group_retained_def)
    with True 2 show ?thesis by simp
  next
    case False
    then have r: "review_group_retained config (card authors) mentions"
      by (auto simp: review_group_retained_def)
    from False 2 r show ?thesis
      by (simp add: Let_def add_tag_record_def review_group_record_def review_confidence_def)
  qed
qed

lemma review_groups_empty: "review_groups config [] = []"
  by (simp add: review_groups_def)

text \<open>
  Claim C5. The records of \<open>_review_tag_records\<close> are, in the order of the groups, the
  records of exactly those (venue, tag) groups whose number of distinct authors reaches
  \<open>min_unique_authors\<close> or whose number of mentions reaches \<open>min_mentions\<close> (either
  suffices), and the confidence of each is
  \<open>score_floor + 15 ln(1 + unique_authors) + 10 ln(1 + mentions)\<close>, capped at \<open>score_cap\<close>.
\<close>

theorem review_tag_gate_and_confidence:
  "review_tag_records reviews config =
     map (review_group_record config)
       (filter (\<lambda>g. review_group_retained config (card (fst (snd g))) (snd (snd g)))
          (review_groups config reviews))"
  by (simp add: review_tag_records_def review_group_records_eq review_groups_empty)

lemma found_tags_examples:
  "found_tags (str_lower ''So Cozy'') = [''cozy'']"
  "found_tags (str_lower ''snug'') = [''cozy'']"
  "found_tags (str_lower ''Quiet'') = [''quiet'']"
  "found_tags (str_lower ''good'') = []"
  by (simp_all add: found_tags_def REVIEW_TAG_KEYWORDS_def str_lower_def lower_char_def sublist_code)

lemma example_review_groups:
  "review_groups default_review_tag_config example_reviews =
     [((7, ''cozy''), ({''ann'', ''anon''}, 2)),
      ((8, ''quiet''), ({''bob''}, 3)),
      ((9, ''quiet''), ({''bob''}, 1))]"
  by (simp add: review_groups_def example_reviews_def default_review_tag_config_def
      found_tags_examples insert_commute)

theorem review_tag_gate_and_confidence_witness:
  "review_tag_records example_reviews default_review_tag_config =
     [\<lparr>tr_location_id = 7, tr_tag_text = ''cozy'',
       tr_score = review_confidence default_review_tag_config 2 2, tr_source = ''reviews'',
       tr_metadata = [(''mentions'', 2), (''unique_authors'', 2)]\<rparr>,
      \<lparr>tr_location_id = 8, tr_tag_text = ''quiet'',
       tr_score = review_confidence default_review_tag_config 1 3, tr_source = ''reviews'',
       tr_metadata = [(''mentions'', 3), (''unique_authors'', 1)]\<rparr>]"
proof -
  have "review_tag_records example_reviews default_review_tag_config =
     map (review_group_record default_review_tag_config)
       (filter (\<lambda>g. review_group_retained default_review_tag_config
                       (card (fst (snd g))) (snd (snd g)))
          [((7, ''cozy''), ({''ann'', ''anon''}, 2)),
           ((8, ''quiet''), ({''bob''}, 3)),
           ((9, ''quiet''), ({''bob''}, 1))])"
    using review_tag_gate_and_confidence [of example_reviews default_review_tag_config]
    by (simp only: example_review_groups)
  then show ?thesis
    by (simp add: review_group_record_def review_group_retained_def
        default_review_tag_config_def numeral_2_eq_2)
qed

section \<open>Properties of the action weights\<close>

text \<open>The action-type weights, read off \<open>DEFAULT_ACTION_WEIGHTS\<close>.\<close>


lemma action_type_weight_table:
  "action_type_weight ''save'' = 3"
  "action_type_weight ''like'' = 2"
  "action_type_weight ''share_to_bubble'' = 2.5"
  "action_type_weight ''detail_view'' = 0.5"
  "action_type_weight ''impression'' = 0.1"
  "action_type_weight ''dismiss'' = - 1.5"
  "action_type_weight ''share'' = 0"
  by (simp_all add: action_type_weight_def DEFAULT_ACTION_WEIGHTS_def)



section \<open>Properties of the user-tag affinities\<close>

lemma set_groupby_head: "set (groupby_head n key rows) \<subseteq> set rows"
  by (auto simp: groupby_head_def)

lemma groupby_head_first:
  assumes n: "0 < n" and x: "x \<in> set rows"
  shows "\<exists>i<length rows. key (rows ! i) = key x \<and> (\<forall>j<i. key (rows ! j) \<noteq> key x)
           \<and> rows ! i \<in> set (groupby_head n key rows)"
proof -
  define P where "P i \<longleftrightarrow> i < length rows \<and> key (rows ! i) = key x" for i
  from x obtain k where "P k" by (auto simp: in_set_conv_nth P_def)
  define i where "i = (LEAST i. P i)"
  have Pi: "P i" unfolding i_def using \<open>P k\<close> by (rule LeastI)
  have least: "\<not> P j" if "j < i" for j using that not_less_Least unfolding i_def by blast
  have first: "\<forall>j<i. key (rows ! j) \<noteq> key x"
    using least Pi by (auto simp: P_def)
  have "filter (\<lambda>y. key y = key (rows ! i)) (take i rows) = []"
    using first Pi by (auto simp: filter_empty_conv in_set_conv_nth P_def)
  then have "rows ! i \<in> set (groupby_head n key rows)"
    using Pi n by (auto simp: groupby_head_def P_def intro!: image_eqI [where x = i])
  with Pi first show ?thesis by (auto simp: P_def)
qed

lemma normalize_by_user_empty [simp]: "normalize_by_user [] = []"
  by (simp add: normalize_by_user_def)

lemma groupby_sum_empty [simp]: "groupby_sum [] = []"
  by (simp add: groupby_sum_def)

lemma groupby_head_empty [simp]: "groupby_head n key [] = []"
  by (simp add: groupby_head_def)

lemma merged_contribs_empty [simp]:
  "merged_contribs [] tags = []" "merged_contribs acts [] = []"
  by (simp_all add: merged_contribs_def)

lemma resolve_actions_empty [simp]: "resolve_actions locations [] = []"
  by (simp add: resolve_actions_def List.map_filter_simps)

lemma apply_action_weights_empty [simp]: "apply_action_weights now [] = []"
  by (simp add: apply_action_weights_def)

lemma affinities_eq:
  "fst (build_user_tag_affinities now user_actions location_tags locations) =
     groupby_head 25 ut_user_id
       (sort_key (\<lambda>r. (ut_user_id r, - ut_score r))
          (normalize_by_user (tag_contributions now user_actions location_tags locations)))"
  by (simp add: build_user_tag_affinities_def tag_contributions_def Let_def)

lemma in_normalize_group:
  "r \<in> set (normalize_group grp) \<longleftrightarrow>
     (\<exists>row \<in> set grp.
        r = \<lparr>ut_user_id = fst (fst row), ut_tag_id = fst (snd (fst row)),
              ut_tag_text = snd (snd (fst row)),
              ut_score = (if max_val grp \<le> 0 then 0 else (snd row / max_val grp) * 100),
              ut_raw_score = snd row\<rparr>)"
  unfolding normalize_group_def set_map image_iff
  by (simp only: split_beta)

lemma in_normalize_by_user:
  "r \<in> set (normalize_by_user agg) \<longleftrightarrow>
     (\<exists>row \<in> set agg.
        r = \<lparr>ut_user_id = fst (fst row), ut_tag_id = fst (snd (fst row)),
              ut_tag_text = snd (snd (fst row)),
              ut_score = (if max_val (user_group agg (fst (fst row))) \<le> 0 then 0
                          else (snd row / max_val (user_group agg (fst (fst row)))) * 100),
              ut_raw_score = snd row\<rparr>)"
  (is "?L \<longleftrightarrow> (\<exists>row \<in> set agg. ?R row)")
proof
  assume ?L
  then obtain u where "r \<in> set (normalize_group (user_group agg u))"
    by (auto simp: normalize_by_user_def)
  then obtain row where row: "row \<in> set (user_group agg u)"
    and r: "r = \<lparr>ut_user_id = fst (fst row), ut_tag_id = fst (snd (fst row)),
              ut_tag_text = snd (snd (fst row)),
              ut_score = (if max_val (user_group agg u) \<le> 0 then 0
                          else (snd row / max_val (user_group agg u)) * 100),
              ut_raw_score = snd row\<rparr>"
    unfolding in_normalize_group by blast
  from row have "row \<in> set agg" and "fst (fst row) = u"
    by (simp_all add: user_group_def)
  with r show "\<exists>row \<in> set agg. ?R row" by blast
next
  assume "\<exists>row \<in> set agg. ?R row"
  then obtain row where row: "row \<in> set agg" and r: "?R row" by blast
  have "row \<in> set (user_group agg (fst (fst row)))"
    using row by (simp add: user_group_def)
  with r have "r \<in> set (normalize_group (user_group agg (fst (fst row))))"
    unfolding in_normalize_group by blast
  moreover have "fst (fst row) \<in> set (sorted_list_of_set (set (map (\<lambda>row. fst (fst row)) agg)))"
    using row by simp
  ultimately show ?L
    unfolding normalize_by_user_def set_concat set_map by blast
qed

lemma max_val_ge:
  "row \<in> set agg \<Longrightarrow> snd row \<le> max_val (user_group agg (fst (fst row)))"
  by (simp add: max_val_def user_group_def)

lemma max_val_in:
  "user_group agg u \<noteq> [] \<Longrightarrow>
     \<exists>row \<in> set agg. fst (fst row) = u \<and> snd row = max_val (user_group agg u)"
proof -
  assume ne: "user_group agg u \<noteq> []"
  have "Max (set (map snd (user_group agg u))) \<in> set (map snd (user_group agg u))"
    using ne by (intro Max_in) auto
  then show ?thesis
    by (auto simp: max_val_def user_group_def)
qed


lemma sort_key_nth_mono:
  "i \<le> j \<Longrightarrow> j < length xs \<Longrightarrow> f (sort_key f xs ! i) \<le> f (sort_key f xs ! j)"
proof -
  assume ij: "i \<le> j" and j: "j < length xs"
  have "sorted (map f (sort_key f xs))" by (rule sorted_sort_key)
  then have "map f (sort_key f xs) ! i \<le> map f (sort_key f xs) ! j"
    using ij j by (intro sorted_nth_mono) simp_all
  then show ?thesis using ij j by simp
qed

lemma affinity_rows:
  fixes now user_actions location_tags locations
  defines "agg \<equiv> tag_contributions now user_actions location_tags locations"
    and "out \<equiv> fst (build_user_tag_affinities now user_actions location_tags locations)"
  shows "(\<forall>r \<in> set out.
            ((ut_user_id r, ut_tag_id r, ut_tag_text r), ut_raw_score r) \<in> set agg
          \<and> ut_score r = (if max_val (user_group agg (ut_user_id r)) \<le> 0 then 0
                           else ut_raw_score r / max_val (user_group agg (ut_user_id r)) * 100))
       \<and> (\<forall>u. (\<exists>r \<in> set out. ut_user_id r = u) \<longleftrightarrow> user_group agg u \<noteq> [])
       \<and> (\<forall>u. user_group agg u \<noteq> [] \<and> 0 < max_val (user_group agg u) \<longrightarrow>
               (\<exists>r \<in> set out. ut_user_id r = u \<and> ut_score r = 100)
             \<and> (\<forall>r \<in> set out. ut_user_id r = u \<longrightarrow> ut_score r \<le> 100))
       \<and> (\<forall>u. user_group agg u \<noteq> [] \<and> max_val (user_group agg u) \<le> 0 \<longrightarrow>
               (\<exists>r \<in> set out. ut_user_id r = u)
             \<and> (\<forall>r \<in> set out. ut_user_id r = u \<longrightarrow> ut_score r = 0))"
proof -
  define srt where "srt = sort_key (\<lambda>r. (ut_user_id r, - ut_score r)) (normalize_by_user agg)"
  have out: "out = groupby_head 25 ut_user_id srt"
    unfolding out_def srt_def agg_def by (rule affinities_eq)
  have set_srt: "set srt = set (normalize_by_user agg)"
    by (simp add: srt_def)
  have sub: "set out \<subseteq> set (normalize_by_user agg)"
    using set_groupby_head [of 25 ut_user_id srt] by (simp add: out set_srt)
  have rows: "((ut_user_id r, ut_tag_id r, ut_tag_text r), ut_raw_score r) \<in> set agg
          \<and> ut_score r = (if max_val (user_group agg (ut_user_id r)) \<le> 0 then 0
                           else ut_raw_score r / max_val (user_group agg (ut_user_id r)) * 100)"
    if "r \<in> set (normalize_by_user agg)" for r
  proof -
    from that obtain row where row: "row \<in> set agg" and
      r: "r = \<lparr>ut_user_id = fst (fst row), ut_tag_id = fst (snd (fst row)),
              ut_tag_text = snd (snd (fst row)),
              ut_score = (if max_val (user_group agg (fst (fst row))) \<le> 0 then 0
                          else (snd row / max_val (user_group agg (fst (fst row)))) * 100),
              ut_raw_score = snd row\<rparr>"
      unfolding in_normalize_by_user by blast
    show ?thesis using row by (simp add: r)
  qed
  have le100: "ut_score r \<le> 100"
    if "r \<in> set (normalize_by_user agg)" for r
  proof -
    let ?m = "max_val (user_group agg (ut_user_id r))"
    from rows [OF that] have in_agg: "((ut_user_id r, ut_tag_id r, ut_tag_text r), ut_raw_score r) \<in> set agg"
      and sc: "ut_score r = (if ?m \<le> 0 then 0 else ut_raw_score r / ?m * 100)"
      by simp_all
    from max_val_ge [OF in_agg] have "ut_raw_score r \<le> ?m" by simp
    then show ?thesis by (simp add: sc field_simps)
  qed
  have nonempty: "user_group agg u \<noteq> []" if "r \<in> set (normalize_by_user agg)" "ut_user_id r = u" for r u
  proof -
    from rows [OF that(1)] have "((ut_user_id r, ut_tag_id r, ut_tag_text r), ut_raw_score r) \<in> set agg"
      by simp
    then have "((ut_user_id r, ut_tag_id r, ut_tag_text r), ut_raw_score r) \<in> set (user_group agg u)"
      using that(2) by (simp add: user_group_def)
    then show ?thesis by auto
  qed
  have first: "\<exists>i<length srt. ut_user_id (srt ! i) = u \<and> (\<forall>j<i. ut_user_id (srt ! j) \<noteq> u)
                 \<and> srt ! i \<in> set out"
    if "user_group agg u \<noteq> []" for u
  proof -
    from that obtain row where "row \<in> set agg" "fst (fst row) = u"
      by (auto simp: user_group_def filter_empty_conv)
    then obtain x where "x \<in> set (normalize_by_user agg)" "ut_user_id x = u"
      unfolding in_normalize_by_user by fastforce
    then have "x \<in> set srt" by (simp add: set_srt)
    from groupby_head_first [OF _ this, of 25 ut_user_id] show ?thesis
      using \<open>ut_user_id x = u\<close> by (simp add: out)
  qed
  have p1: "\<forall>r \<in> set out.
            ((ut_user_id r, ut_tag_id r, ut_tag_text r), ut_raw_score r) \<in> set agg
          \<and> ut_score r = (if max_val (user_group agg (ut_user_id r)) \<le> 0 then 0
                           else ut_raw_score r / max_val (user_group agg (ut_user_id r)) * 100)"
    using rows sub by blast
  have p2: "\<forall>u. (\<exists>r \<in> set out. ut_user_id r = u) \<longleftrightarrow> user_group agg u \<noteq> []"
    using nonempty sub first by blast
  have top: "\<exists>r \<in> set out. ut_user_id r = u \<and> ut_score r = 100"
    if ne: "user_group agg u \<noteq> []" and pos: "0 < max_val (user_group agg u)" for u
  proof -
    from max_val_in [OF ne] obtain row where row: "row \<in> set agg" "fst (fst row) = u"
      "snd row = max_val (user_group agg u)" by blast
    define r0 where "r0 = \<lparr>ut_user_id = fst (fst row), ut_tag_id = fst (snd (fst row)),
              ut_tag_text = snd (snd (fst row)),
              ut_score = (if max_val (user_group agg (fst (fst row))) \<le> 0 then 0
                          else (snd row / max_val (user_group agg (fst (fst row)))) * 100),
              ut_raw_score = snd row\<rparr>"
    have "r0 \<in> set (normalize_by_user agg)"
      unfolding in_normalize_by_user r0_def using row(1) by blast
    then have "r0 \<in> set srt" by (simp add: set_srt)
    then obtain j where j: "j < length srt" "srt ! j = r0" by (auto simp: in_set_conv_nth)
    have r0u: "ut_user_id r0 = u" and r0s: "ut_score r0 = 100"
      using row pos by (simp_all add: r0_def)
    from first [OF ne] obtain i where i: "i < length srt" "ut_user_id (srt ! i) = u"
      "\<forall>j<i. ut_user_id (srt ! j) \<noteq> u" "srt ! i \<in> set out" by blast
    have "i \<le> j"
    proof (rule ccontr)
      assume "\<not> i \<le> j"
      then have "j < i" by simp
      with i(3) have "ut_user_id (srt ! j) \<noteq> u" by blast
      with j(2) r0u show False by simp
    qed
    have len: "length srt = length (normalize_by_user agg)" by (simp add: srt_def)
    have "(ut_user_id (srt ! i), - ut_score (srt ! i)) \<le> (ut_user_id (srt ! j), - ut_score (srt ! j))"
      unfolding srt_def using \<open>i \<le> j\<close> j(1) len
      by (intro sort_key_nth_mono [where f = "\<lambda>r. (ut_user_id r, - ut_score r)"]) simp_all
    then have "100 \<le> ut_score (srt ! i)"
      using i(2) j(2) r0u r0s by (simp add: less_eq_prod_def)
    moreover have "ut_score (srt ! i) \<le> 100"
      using le100 sub i(4) by blast
    ultimately show ?thesis using i(2,4) by (intro bexI [where x = "srt ! i"]) simp_all
  qed
  have p3: "\<forall>u. user_group agg u \<noteq> [] \<and> 0 < max_val (user_group agg u) \<longrightarrow>
               (\<exists>r \<in> set out. ut_user_id r = u \<and> ut_score r = 100)
             \<and> (\<forall>r \<in> set out. ut_user_id r = u \<longrightarrow> ut_score r \<le> 100)"
    using top le100 sub by blast
  have p4: "\<forall>u. user_group agg u \<noteq> [] \<and> max_val (user_group agg u) \<le> 0 \<longrightarrow>
               (\<exists>r \<in> set out. ut_user_id r = u)
             \<and> (\<forall>r \<in> set out. ut_user_id r = u \<longrightarrow> ut_score r = 0)"
  proof (intro allI impI conjI ballI)
    fix u assume "user_group agg u \<noteq> [] \<and> max_val (user_group agg u) \<le> 0"
    then show "\<exists>r \<in> set out. ut_user_id r = u" using p2 by blast
  next
    fix u r assume a: "user_group agg u \<noteq> [] \<and> max_val (user_group agg u) \<le> 0"
      and r: "r \<in> set out" and u: "ut_user_id r = u"
    from p1 r have "ut_score r = (if max_val (user_group agg (ut_user_id r)) \<le> 0 then 0
                           else ut_raw_score r / max_val (user_group agg (ut_user_id r)) * 100)"
      by blast
    then show "ut_score r = 0" using a u by simp
  qed
  from p1 p2 p3 p4 show ?thesis by (intro conjI)
qed

lemma str_lower_examples:
  "str_lower ''like'' = ''like''" "str_lower ''Dismiss'' = ''dismiss''"
  by (simp_all add: str_lower_def lower_char_def)

lemma example_weighted_like:
  "apply_action_weights now (resolve_actions example_locations like_actions) =
     [\<lparr>ua_user_id = ''u1'', ua_place_id = ''p1'', ua_action = ''like'', ua_created_at = None,
       ra_location_id = 1, wa_weight = 2\<rparr>]"
  by (simp add: apply_action_weights_def resolve_actions_def place_to_location_def
      example_locations_def like_actions_def List.map_filter_simps str_lower_examples
      action_type_weight_table action_age_days_def Let_def)

lemma example_weighted_dismiss:
  "apply_action_weights now (resolve_actions example_locations dismiss_actions) =
     [\<lparr>ua_user_id = ''u1'', ua_place_id = ''p1'', ua_action = ''dismiss'', ua_created_at = None,
       ra_location_id = 1, wa_weight = - 1.5\<rparr>]"
  by (simp add: apply_action_weights_def resolve_actions_def place_to_location_def
      example_locations_def dismiss_actions_def List.map_filter_simps str_lower_examples
      action_type_weight_table action_age_days_def Let_def)

lemma groupby_sum_two:
  "k1 < k2 \<Longrightarrow> groupby_sum [(k1, a), (k2, b)] = [(k1, a), (k2, b)]"
  by (auto simp: groupby_sum_def sorted_list_of_set_insert_remove)

lemma example_keys: "(''u1'', 10::int, ''italian'') < (''u1'', 11, ''cozy'')"
  by (simp add: less_prod_def)

lemma example_contributions_like:
  "tag_contributions now like_actions example_location_tags example_locations =
     [((''u1'', 10, ''italian''), 1.8), ((''u1'', 11, ''cozy''), 0.9)]"
  by (simp add: tag_contributions_def example_weighted_like merged_contribs_def
      example_location_tags_def groupby_sum_two [OF example_keys])

lemma example_contributions_dismiss:
  "tag_contributions now dismiss_actions example_location_tags example_locations =
     [((''u1'', 10, ''italian''), - 1.35), ((''u1'', 11, ''cozy''), - 0.675)]"
  by (simp add: tag_contributions_def example_weighted_dismiss merged_contribs_def
      example_location_tags_def groupby_sum_two [OF example_keys])

lemma set_groupby_sum:
  "set (groupby_sum rows) =
     (\<lambda>k. (k, sum_list (map snd (filter (\<lambda>p. fst p = k) rows)))) ` fst ` set rows"
  by (simp add: groupby_sum_def)

lemma groupby_sum_row:
  "row \<in> set (groupby_sum rows) \<Longrightarrow>
     snd row = sum_list (map snd (filter (\<lambda>p. fst p = fst row) rows))"
  by (auto simp: set_groupby_sum)

lemma in_merged_contribs:
  "p \<in> set (merged_contribs df_actions location_tags) \<longleftrightarrow>
     (\<exists>a \<in> set df_actions. \<exists>t \<in> set location_tags.
        lt_location_id t = ra_location_id a
      \<and> p = ((ua_user_id a, lt_tag_id t, lt_tag_text t), wa_weight a * (lt_score t / 100)))"
  by (auto simp: merged_contribs_def)

lemma user_group_nonempty:
  "user_group (tag_contributions now user_actions location_tags locations) u \<noteq> [] \<longleftrightarrow>
     (\<exists>a \<in> set (apply_action_weights now (resolve_actions locations user_actions)).
        ua_user_id a = u \<and> (\<exists>t \<in> set location_tags. lt_location_id t = ra_location_id a))"
  (is "?L \<longleftrightarrow> ?R")
proof
  assume ?L
  then obtain row where "row \<in> set (tag_contributions now user_actions location_tags locations)"
    and u: "fst (fst row) = u"
    by (auto simp: user_group_def filter_empty_conv)
  then obtain p where
    "p \<in> set (merged_contribs (apply_action_weights now (resolve_actions locations user_actions))
               location_tags)" and "fst row = fst p"
    by (auto simp: tag_contributions_def set_groupby_sum)
  with u show ?R unfolding in_merged_contribs by auto
next
  assume ?R
  then obtain a t where a: "a \<in> set (apply_action_weights now (resolve_actions locations user_actions))"
    "ua_user_id a = u" and t: "t \<in> set location_tags" "lt_location_id t = ra_location_id a"
    by blast
  let ?p = "((ua_user_id a, lt_tag_id t, lt_tag_text t), wa_weight a * (lt_score t / 100))"
  let ?m = "merged_contribs (apply_action_weights now (resolve_actions locations user_actions))
               location_tags"
  have "?p \<in> set ?m"
    unfolding in_merged_contribs using a t by blast
  then have "fst ?p \<in> fst ` set ?m" by (rule imageI)
  then have "(fst ?p, sum_list (map snd (filter (\<lambda>q. fst q = fst ?p) ?m)))
      \<in> set (tag_contributions now user_actions location_tags locations)"
    unfolding tag_contributions_def set_groupby_sum by (rule imageI)
  then have "\<exists>row \<in> set (tag_contributions now user_actions location_tags locations).
               fst (fst row) = u"
    using a(2) by (intro bexI [where x = "(fst ?p, sum_list (map snd (filter (\<lambda>q. fst q = fst ?p) ?m)))"]) simp_all
  then show ?L
    by (simp add: user_group_def filter_empty_conv)
qed

lemma example_affinities_like:
  "fst (build_user_tag_affinities now like_actions example_location_tags example_locations) =
     [\<lparr>ut_user_id = ''u1'', ut_tag_id = 10, ut_tag_text = ''italian'', ut_score = 100,
       ut_raw_score = 1.8\<rparr>,
      \<lparr>ut_user_id = ''u1'', ut_tag_id = 11, ut_tag_text = ''cozy'', ut_score = 50,
       ut_raw_score = 0.9\<rparr>]"
  by (simp add: affinities_eq example_contributions_like normalize_by_user_def
      normalize_group_def user_group_def max_val_def groupby_head_def less_eq_prod_def
      upt_rec [of 0] upt_rec [of 1])

text \<open>
  Claim C4 (as amended). Write \<open>agg\<close> for the accumulated sums per (user, tag): the sum, over
  the user's weighted actions and the tags of the venue each resolves to, of
  \<open>weight * (tag score / 100)\<close>; and \<open>max_val (user_group agg u)\<close> for the largest sum of
  user \<open>u\<close>. Every row of the affinity output carries the accumulated sum of its (user, tag)
  and the score \<open>sum / max * 100\<close> when the user's largest sum is positive, and the score 0
  when it is not. A user has rows in the output exactly when some action of theirs with a
  non-zero weight, of either sign, resolves to a tagged venue. If the user's largest sum is
  positive, a row of theirs scores exactly 100 and none scores more; if it is not, the user
  still has rows, all with score 0.
\<close>

theorem user_tag_affinity_scores:
  fixes now user_actions location_tags locations
  defines "weighted \<equiv> apply_action_weights now (resolve_actions locations user_actions)"
    and "agg \<equiv> tag_contributions now user_actions location_tags locations"
    and "out \<equiv> fst (build_user_tag_affinities now user_actions location_tags locations)"
  shows "(\<forall>r \<in> set out.
            ((ut_user_id r, ut_tag_id r, ut_tag_text r), ut_raw_score r) \<in> set agg
          \<and> ut_score r = (if max_val (user_group agg (ut_user_id r)) \<le> 0 then 0
                           else ut_raw_score r / max_val (user_group agg (ut_user_id r)) * 100))
       \<and> (\<forall>u. (\<exists>r \<in> set out. ut_user_id r = u) \<longleftrightarrow> user_group agg u \<noteq> [])
       \<and> (\<forall>u. user_group agg u \<noteq> [] \<and> 0 < max_val (user_group agg u) \<longrightarrow>
               (\<exists>r \<in> set out. ut_user_id r = u \<and> ut_score r = 100)
             \<and> (\<forall>r \<in> set out. ut_user_id r = u \<longrightarrow> ut_score r \<le> 100))
       \<and> (\<forall>u. user_group agg u \<noteq> [] \<and> max_val (user_group agg u) \<le> 0 \<longrightarrow>
               (\<exists>r \<in> set out. ut_user_id r = u)
             \<and> (\<forall>r \<in> set out. ut_user_id r = u \<longrightarrow> ut_score r = 0))
       \<and> (\<forall>row \<in> set agg.
             snd row = sum_list (map snd (filter (\<lambda>p. fst p = fst row)
                                    (merged_contribs weighted location_tags))))
       \<and> (\<forall>u. user_group agg u \<noteq> [] \<longleftrightarrow>
               (\<exists>a \<in> set weighted. ua_user_id a = u
                  \<and> (\<exists>t \<in> set location_tags. lt_location_id t = ra_location_id a)))"
proof -
  have sums: "\<forall>row \<in> set agg.
             snd row = sum_list (map snd (filter (\<lambda>p. fst p = fst row)
                                    (merged_contribs weighted location_tags)))"
    unfolding agg_def weighted_def tag_contributions_def
    by (intro ballI groupby_sum_row)
  have users: "\<forall>u. user_group agg u \<noteq> [] \<longleftrightarrow>
               (\<exists>a \<in> set weighted. ua_user_id a = u
                  \<and> (\<exists>t \<in> set location_tags. lt_location_id t = ra_location_id a))"
    unfolding agg_def weighted_def by (intro allI user_group_nonempty)
  show ?thesis
    using affinity_rows [of now user_actions location_tags locations] sums users
    unfolding agg_def out_def weighted_def
    by (elim conjE) (intro conjI; assumption)
qed

text \<open>One "like" without a timestamp on a venue tagged \<open>italian\<close> at 90 and \<open>cozy\<close> at 45:
  the sums are 1.8 and 0.9, and the scores 100 and 50.\<close>

theorem user_tag_affinity_scores_witness:
  "user_group (tag_contributions 0 like_actions example_location_tags example_locations) ''u1''
     \<noteq> []
   \<and> 0 < max_val
         (user_group (tag_contributions 0 like_actions example_location_tags example_locations)
            ''u1'')
   \<and> (\<exists>r \<in> set (fst (build_user_tag_affinities 0 like_actions example_location_tags
                         example_locations)).
         ut_user_id r = ''u1'' \<and> ut_score r = 100)
   \<and> fst (build_user_tag_affinities 0 like_actions example_location_tags example_locations) =
       [\<lparr>ut_user_id = ''u1'', ut_tag_id = 10, ut_tag_text = ''italian'', ut_score = 100,
         ut_raw_score = 1.8\<rparr>,
        \<lparr>ut_user_id = ''u1'', ut_tag_id = 11, ut_tag_text = ''cozy'', ut_score = 50,
         ut_raw_score = 0.9\<rparr>]"
proof -
  let ?agg = "tag_contributions 0 like_actions example_location_tags example_locations"
  let ?out = "fst (build_user_tag_affinities 0 like_actions example_location_tags
                     example_locations)"
  have ne: "user_group ?agg ''u1'' \<noteq> []"
    by (simp add: example_contributions_like user_group_def)
  have pos: "0 < max_val (user_group ?agg ''u1'')"
    by (simp add: example_contributions_like user_group_def max_val_def)
  have "\<forall>u. user_group ?agg u \<noteq> [] \<and> 0 < max_val (user_group ?agg u) \<longrightarrow>
               (\<exists>r \<in> set ?out. ut_user_id r = u \<and> ut_score r = 100)
             \<and> (\<forall>r \<in> set ?out. ut_user_id r = u \<longrightarrow> ut_score r \<le> 100)"
    using user_tag_affinity_scores [of 0 like_actions example_location_tags example_locations]
    by blast
  with ne pos have top: "\<exists>r \<in> set ?out. ut_user_id r = ''u1'' \<and> ut_score r = 100"
    by blast
  from ne pos top example_affinities_like [of 0] show ?thesis by (intro conjI)
qed

text \<open>The claim as first stated gives a user without a positive-weight action no rows, and
  every row the score \<open>sum / max * 100\<close>. One "dismiss" on the same venue: the user has two
  rows, with the sums -1.35 and -0.675 and the score 0 (the quotient by the largest sum would
  be 200 and 100).\<close>

theorem negative_actions_counterexample:
  "fst (build_user_tag_affinities 0 dismiss_actions example_location_tags example_locations) =
     [\<lparr>ut_user_id = ''u1'', ut_tag_id = 10, ut_tag_text = ''italian'', ut_score = 0,
       ut_raw_score = - 1.35\<rparr>,
      \<lparr>ut_user_id = ''u1'', ut_tag_id = 11, ut_tag_text = ''cozy'', ut_score = 0,
       ut_raw_score = - 0.675\<rparr>]"
  by (simp add: affinities_eq example_contributions_dismiss normalize_by_user_def
      normalize_group_def user_group_def max_val_def groupby_head_def less_eq_prod_def
      upt_rec [of 0] upt_rec [of 1])

section \<open>Properties of the proximal recommender\<close>

lemma pi_ge_three: "3 \<le> pi"
proof -
  have "sin (pi / 6) \<le> pi / 6" by (rule sin_x_le_x) simp
  then show ?thesis by (simp add: sin_30)
qed

lemma haversine_equator:
  assumes "0 \<le> L" "L \<le> 180"
  shows "haversine_distance 0 0 0 L = L * pi * 6371 / 180"
proof -
  let ?x = "L * (pi / 180) / 2"
  have x: "0 \<le> ?x" "?x \<le> pi / 2" using assms by (simp_all add: field_simps)
  then have s: "0 \<le> sin ?x" by (intro sin_ge_zero) (use pi_ge_zero in linarith)+
  have "arcsin (sin ?x) = ?x" using x by (intro arcsin_sin) (use pi_ge_zero in linarith)+
  then show ?thesis
    using s by (simp add: haversine_distance_def radians_def Let_def real_sqrt_abs abs_of_nonneg)
qed

lemma length_filter_by_radius_eq:
  "length (filter_by_radius center_lat center_lon locations radius) =
     length (filter (\<lambda>d. case d of None \<Rightarrow> False | Some d \<Rightarrow> d \<le> radius)
                    (calculate_distances center_lat center_lon locations))"
proof -
  have "length (List.map_filter (\<lambda>(row, d). case d of None \<Rightarrow> None
                   | Some d \<Rightarrow> if d \<le> radius then Some (f row d) else None) (zip xs ds))
        = length (filter (\<lambda>d. case d of None \<Rightarrow> False | Some d \<Rightarrow> d \<le> radius) ds)"
    if "length xs = length ds" for f :: "location \<Rightarrow> real \<Rightarrow> nearby_location" and xs ds
    using that
    by (induction xs ds rule: list_induct2) (auto simp: List.map_filter_simps split: option.splits)
  from this [of locations "calculate_distances center_lat center_lon locations"
                "\<lambda>row d. location.extend row (nearby_location.fields d)"]
  show ?thesis
    by (simp add: filter_by_radius_def Let_def calculate_distances_def)
qed

lemma length_score_nearby [simp]:
  "length (score_nearby user_id user_tags location_tags config nearby) = length nearby"
  by (simp add: score_nearby_def Let_def)

lemma expansion_radii_nonempty [simp]:
  "expansion_radii user_id center_lat center_lon locations user_tags location_tags config \<noteq> []"
  by (subst expansion_radii.simps) (simp add: Let_def)


lemma expansion_radii_cases:
  "expansion_radii user_id center_lat center_lon locations user_tags location_tags config =
     (if search_nearby center_lat center_lon locations config \<noteq> []
         \<and> int (length (head_rows (max_results config)
                  (score_nearby user_id user_tags location_tags config
                     (search_nearby center_lat center_lon locations config))))
             < min_results config
         \<and> int (length (search_nearby center_lat center_lon locations config))
             < min_results config
         \<and> length (search_nearby center_lat center_lon locations config)
             < length (filter_by_radius center_lat center_lon locations (radius_km config * 3))
      then radius_km config
           # expansion_radii user_id center_lat center_lon locations user_tags location_tags
               (config\<lparr>radius_km := radius_km config * 3\<rparr>)
      else [radius_km config])"
  by (subst expansion_radii.simps) (simp add: Let_def)

lemma build_proximal_recommendations_cases:
  "build_proximal_recommendations user_id center_lat center_lon locations user_tags location_tags
       config =
     (if search_nearby center_lat center_lon locations config \<noteq> []
         \<and> int (length (head_rows (max_results config)
                  (score_nearby user_id user_tags location_tags config
                     (search_nearby center_lat center_lon locations config))))
             < min_results config
         \<and> int (length (search_nearby center_lat center_lon locations config))
             < min_results config
         \<and> length (search_nearby center_lat center_lon locations config)
             < length (filter_by_radius center_lat center_lon locations (radius_km config * 3))
      then build_proximal_recommendations user_id center_lat center_lon locations user_tags
             location_tags (config\<lparr>radius_km := radius_km config * 3\<rparr>)
      else if search_nearby center_lat center_lon locations config = [] then []
      else head_rows (max_results config)
             (score_nearby user_id user_tags location_tags config
                (search_nearby center_lat center_lon locations config)))"
  by (subst build_proximal_recommendations.simps) (simp add: Let_def)

lemma length_search_nearby_ge:
  "length (filter_by_radius center_lat center_lon locations (radius_km config))
     \<le> length (search_nearby center_lat center_lon locations config)"
  by (simp add: search_nearby_def Let_def)

lemma length_filter_by_radius_le:
  "length (filter_by_radius center_lat center_lon locations radius) \<le> length locations"
  unfolding length_filter_by_radius_eq
  by (rule le_trans [OF length_filter_le]) (simp add: calculate_distances_def)

lemma expansion_radii_powers:
  "expansion_radii user_id center_lat center_lon locations user_tags location_tags config =
     map (\<lambda>i. radius_km config * 3 ^ i)
         [0..<length (expansion_radii user_id center_lat center_lon locations user_tags
                        location_tags config)]"
proof (induction user_id center_lat center_lon locations user_tags location_tags config
       rule: expansion_radii.induct)
  case (1 user_id center_lat center_lon locations user_tags location_tags config)
  let ?rec = "expansion_radii user_id center_lat center_lon locations user_tags location_tags
               (config\<lparr>radius_km := radius_km config * 3\<rparr>)"
  show ?case
  proof (cases "search_nearby center_lat center_lon locations config \<noteq> []
         \<and> int (length (head_rows (max_results config)
                  (score_nearby user_id user_tags location_tags config
                     (search_nearby center_lat center_lon locations config))))
             < min_results config
         \<and> int (length (search_nearby center_lat center_lon locations config))
             < min_results config
         \<and> length (search_nearby center_lat center_lon locations config)
             < length (filter_by_radius center_lat center_lon locations (radius_km config * 3))")
    case True
    then have ih: "?rec = map (\<lambda>i. radius_km config * 3 * 3 ^ i) [0..<length ?rec]"
      using "1.IH" [OF refl _ refl refl _ refl] by simp
    have eq: "expansion_radii user_id center_lat center_lon locations user_tags location_tags
                config = radius_km config # ?rec"
      using True by (subst expansion_radii_cases) simp
    have "map (\<lambda>i. radius_km config * 3 ^ i) [0..<Suc (length ?rec)]
            = radius_km config # map (\<lambda>i. radius_km config * 3 * 3 ^ i) [0..<length ?rec]"
      by (simp add: upt_conv_Cons map_Suc_upt [symmetric] del: upt_Suc)
    with ih show ?thesis unfolding eq by simp
  next
    case False
    then have "expansion_radii user_id center_lat center_lon locations user_tags location_tags
                config = [radius_km config]"
      by (subst expansion_radii_cases) simp
    then show ?thesis by simp
  qed
qed


lemma expansion_radii_Cons:
  "\<exists>rs. expansion_radii user_id center_lat center_lon locations user_tags location_tags config
          = radius_km config # rs"
  by (subst expansion_radii_cases) simp

lemma expansion_counts_increase:
  "successively (<)
     (map (\<lambda>R. length (filter_by_radius center_lat center_lon locations R))
          (expansion_radii user_id center_lat center_lon locations user_tags location_tags
             config))"
proof (induction user_id center_lat center_lon locations user_tags location_tags config
       rule: expansion_radii.induct)
  case (1 user_id center_lat center_lon locations user_tags location_tags config)
  let ?rec = "expansion_radii user_id center_lat center_lon locations user_tags location_tags
               (config\<lparr>radius_km := radius_km config * 3\<rparr>)"
  define c where "c \<longleftrightarrow> search_nearby center_lat center_lon locations config \<noteq> []
         \<and> int (length (head_rows (max_results config)
                  (score_nearby user_id user_tags location_tags config
                     (search_nearby center_lat center_lon locations config))))
             < min_results config
         \<and> int (length (search_nearby center_lat center_lon locations config))
             < min_results config
         \<and> length (search_nearby center_lat center_lon locations config)
             < length (filter_by_radius center_lat center_lon locations (radius_km config * 3))"
  show ?case
  proof (cases c)
    case True
    then have ih: "successively (<)
        (map (\<lambda>R. length (filter_by_radius center_lat center_lon locations R)) ?rec)"
      using "1.IH" [OF refl _ refl refl _ refl] by (simp add: c_def)
    have eq: "expansion_radii user_id center_lat center_lon locations user_tags location_tags
                config = radius_km config # ?rec"
      using True unfolding c_def by (subst expansion_radii_cases) simp
    obtain rs where rs: "?rec = (radius_km config * 3) # rs"
      using expansion_radii_Cons [of user_id center_lat center_lon locations user_tags
               location_tags "config\<lparr>radius_km := radius_km config * 3\<rparr>"] by auto
    have "length (filter_by_radius center_lat center_lon locations (radius_km config))
          < length (filter_by_radius center_lat center_lon locations (radius_km config * 3))"
      using True length_search_nearby_ge [of center_lat center_lon locations config]
      unfolding c_def by linarith
    with ih show ?thesis unfolding eq rs by simp
  next
    case False
    then have "expansion_radii user_id center_lat center_lon locations user_tags location_tags
                config = [radius_km config]"
      unfolding c_def by (subst expansion_radii_cases) simp
    then show ?thesis by simp
  qed
qed

lemma expansion_radii_bound:
  "length (expansion_radii user_id center_lat center_lon locations user_tags location_tags config)
     + length (filter_by_radius center_lat center_lon locations (radius_km config))
   \<le> length locations + 1"
proof (induction user_id center_lat center_lon locations user_tags location_tags config
       rule: expansion_radii.induct)
  case (1 user_id center_lat center_lon locations user_tags location_tags config)
  let ?rec = "expansion_radii user_id center_lat center_lon locations user_tags location_tags
               (config\<lparr>radius_km := radius_km config * 3\<rparr>)"
  define c where "c \<longleftrightarrow> search_nearby center_lat center_lon locations config \<noteq> []
         \<and> int (length (head_rows (max_results config)
                  (score_nearby user_id user_tags location_tags config
                     (search_nearby center_lat center_lon locations config))))
             < min_results config
         \<and> int (length (search_nearby center_lat center_lon locations config))
             < min_results config
         \<and> length (search_nearby center_lat center_lon locations config)
             < length (filter_by_radius center_lat center_lon locations (radius_km config * 3))"
  show ?case
  proof (cases c)
    case True
    then have ih: "length ?rec
          + length (filter_by_radius center_lat center_lon locations (radius_km config * 3))
        \<le> length locations + 1"
      using "1.IH" [OF refl _ refl refl _ refl] by (simp add: c_def)
    have eq: "expansion_radii user_id center_lat center_lon locations user_tags location_tags
                config = radius_km config # ?rec"
      using True unfolding c_def by (subst expansion_radii_cases) simp
    have "length (filter_by_radius center_lat center_lon locations (radius_km config))
          < length (filter_by_radius center_lat center_lon locations (radius_km config * 3))"
      using True length_search_nearby_ge [of center_lat center_lon locations config]
      unfolding c_def by linarith
    with ih show ?thesis unfolding eq by simp
  next
    case False
    then have "expansion_radii user_id center_lat center_lon locations user_tags location_tags
                config = [radius_km config]"
      unfolding c_def by (subst expansion_radii_cases) simp
    then show ?thesis
      using length_filter_by_radius_le [of center_lat center_lon locations "radius_km config"]
      by simp
  qed
qed

lemma build_at_last_radius:
  "build_proximal_recommendations user_id center_lat center_lon locations user_tags location_tags
       config =
     (if search_nearby center_lat center_lon locations
           (config\<lparr>radius_km :=
              last (expansion_radii user_id center_lat center_lon locations user_tags
                      location_tags config)\<rparr>) = []
      then []
      else head_rows (max_results config)
             (score_nearby user_id user_tags location_tags
                (config\<lparr>radius_km :=
                   last (expansion_radii user_id center_lat center_lon locations user_tags
                           location_tags config)\<rparr>)
                (search_nearby center_lat center_lon locations
                   (config\<lparr>radius_km :=
                      last (expansion_radii user_id center_lat center_lon locations user_tags
                              location_tags config)\<rparr>))))"
proof (induction user_id center_lat center_lon locations user_tags location_tags config
       rule: expansion_radii.induct)
  case (1 user_id center_lat center_lon locations user_tags location_tags config)
  let ?rec = "expansion_radii user_id center_lat center_lon locations user_tags location_tags
               (config\<lparr>radius_km := radius_km config * 3\<rparr>)"
  define c where "c \<longleftrightarrow> search_nearby center_lat center_lon locations config \<noteq> []
         \<and> int (length (head_rows (max_results config)
                  (score_nearby user_id user_tags location_tags config
                     (search_nearby center_lat center_lon locations config))))
             < min_results config
         \<and> int (length (search_nearby center_lat center_lon locations config))
             < min_results config
         \<and> length (search_nearby center_lat center_lon locations config)
             < length (filter_by_radius center_lat center_lon locations (radius_km config * 3))"
  show ?case
  proof (cases c)
    case True
    have eq: "expansion_radii user_id center_lat center_lon locations user_tags location_tags
                config = radius_km config # ?rec"
      using True unfolding c_def by (subst expansion_radii_cases) simp
    have l: "last (expansion_radii user_id center_lat center_lon locations user_tags
                     location_tags config) = last ?rec"
      unfolding eq by simp
    have b: "build_proximal_recommendations user_id center_lat center_lon locations user_tags
               location_tags config
             = build_proximal_recommendations user_id center_lat center_lon locations user_tags
                 location_tags (config\<lparr>radius_km := radius_km config * 3\<rparr>)"
      using True unfolding c_def by (subst build_proximal_recommendations_cases) simp
    show ?thesis
      unfolding b l using "1.IH" [OF refl _ refl refl _ refl] True by (simp add: c_def)
  next
    case False
    have eq: "expansion_radii user_id center_lat center_lon locations user_tags location_tags
                config = [radius_km config]"
      using False unfolding c_def by (subst expansion_radii_cases) simp
    have b: "build_proximal_recommendations user_id center_lat center_lon locations user_tags
               location_tags config
             = (if search_nearby center_lat center_lon locations config = [] then []
                else head_rows (max_results config)
                       (score_nearby user_id user_tags location_tags config
                          (search_nearby center_lat center_lon locations config)))"
      using False unfolding c_def
      by (subst build_proximal_recommendations_cases) (simp only: if_False)
    show ?thesis unfolding eq b by simp
  qed
qed


lemma equator_distances:
  "calculate_distances 0 0 [venue_at i a, venue_at j b, venue_at k c] =
     [Some (haversine_distance 0 0 0 a), Some (haversine_distance 0 0 0 b),
      Some (haversine_distance 0 0 0 c)]"
  by (simp add: calculate_distances_def venue_at_def)

lemma spread_distances:
  "haversine_distance 0 0 0 0.01 \<le> 2"
  "2 < haversine_distance 0 0 0 0.025" "haversine_distance 0 0 0 0.025 \<le> 6"
  "6 < haversine_distance 0 0 0 0.1" "haversine_distance 0 0 0 0.1 \<le> 18"
  using pi_ge_three pi_less_4 by (simp_all add: haversine_equator)

lemma ring_distances:
  "2 < haversine_distance 0 0 0 0.02" "haversine_distance 0 0 0 0.02 \<le> 4"
  "2 < haversine_distance 0 0 0 0.024" "haversine_distance 0 0 0 0.024 \<le> 4"
  "2 < haversine_distance 0 0 0 0.028" "haversine_distance 0 0 0 0.028 \<le> 4"
  using pi_ge_three pi_less_4 by (simp_all add: haversine_equator)

lemma spread_counts:
  "length (filter_by_radius 0 0 spread_venues 2) = 1"
  "length (filter_by_radius 0 0 spread_venues 6) = 2"
  "length (filter_by_radius 0 0 spread_venues 18) = 3"
  "length (filter_by_radius 0 0 spread_venues 54) = 3"
  using spread_distances
  by (simp_all add: length_filter_by_radius_eq spread_venues_def equator_distances)

lemma ring_counts:
  "length (filter_by_radius 0 0 ring_venues 2) = 0"
  "length (filter_by_radius 0 0 ring_venues 4) = 3"
  "length (filter_by_radius 0 0 ring_venues 6) = 3"
  using ring_distances
  by (simp_all add: length_filter_by_radius_eq ring_venues_def equator_distances)


lemma length_head_rows:
  "length (head_rows n rows) =
     (if 0 \<le> n then min (nat n) (length rows) else length rows - nat (- n))"
  by (simp add: head_rows_def min.commute)

lemma length_search_nearby:
  "length (search_nearby center_lat center_lon locations config) =
     (if length (filter_by_radius center_lat center_lon locations (radius_km config)) = 0
      then length (filter_by_radius center_lat center_lon locations (radius_km config * 2))
      else length (filter_by_radius center_lat center_lon locations (radius_km config)))"
  by (simp add: search_nearby_def Let_def)

lemma search_nearby_empty:
  "search_nearby center_lat center_lon locations config = [] \<longleftrightarrow>
     length (search_nearby center_lat center_lon locations config) = 0"
  by simp

lemma spread_radii:
  "expansion_radii user_id 0 0 spread_venues user_tags location_tags example_proximal_config
     = [2, 6, 18]"
proof -
  let ?c2 = "example_proximal_config\<lparr>radius_km := 6\<rparr>"
  let ?c3 = "example_proximal_config\<lparr>radius_km := 18\<rparr>"
  have r3: "expansion_radii user_id 0 0 spread_venues user_tags location_tags ?c3 = [18]"
    by (subst expansion_radii_cases)
       (simp add: search_nearby_empty length_search_nearby length_head_rows spread_counts
          example_proximal_config_def)
  have r2: "expansion_radii user_id 0 0 spread_venues user_tags location_tags ?c2
              = 6 # expansion_radii user_id 0 0 spread_venues user_tags location_tags ?c3"
    by (subst expansion_radii_cases)
       (simp add: search_nearby_empty length_search_nearby length_head_rows spread_counts
          example_proximal_config_def)
  have r1: "expansion_radii user_id 0 0 spread_venues user_tags location_tags
              example_proximal_config
              = 2 # expansion_radii user_id 0 0 spread_venues user_tags location_tags ?c2"
    by (subst expansion_radii_cases)
       (simp add: search_nearby_empty length_search_nearby length_head_rows spread_counts
          example_proximal_config_def)
  show ?thesis unfolding r1 r2 r3 ..
qed

lemma ring_radii:
  "expansion_radii user_id 0 0 ring_venues user_tags location_tags example_proximal_config
     = [2]"
  by (subst expansion_radii_cases)
     (simp add: search_nearby_empty length_search_nearby length_head_rows ring_counts
        example_proximal_config_def)

lemma set_head_rows: "set (head_rows n rows) \<subseteq> set rows"
  by (auto simp: head_rows_def dest: in_set_takeD)

lemma in_filter_by_radius:
  assumes "n \<in> set (filter_by_radius center_lat center_lon locations radius)"
  shows "distance_km n \<le> radius
       \<and> Some (distance_km n) \<in> set (calculate_distances center_lat center_lon locations)"
proof -
  from assms obtain row d where
    z: "(row, d) \<in> set (zip locations (calculate_distances center_lat center_lon locations))"
    and s: "(case d of None \<Rightarrow> None
             | Some d \<Rightarrow> if d \<le> radius
                         then Some (location.extend row (nearby_location.fields d))
                         else None) = Some n"
    by (auto simp: filter_by_radius_def Let_def List.map_filter_def)
  from s obtain x where d: "d = Some x" and x: "x \<le> radius"
    and n: "n = location.extend row (nearby_location.fields x)"
    by (auto split: option.splits if_splits)
  have "distance_km n = x"
    by (simp add: n location.defs nearby_location.defs)
  moreover from z d have "Some x \<in> set (calculate_distances center_lat center_lon locations)"
    by (auto dest: set_zip_rightD)
  ultimately show ?thesis using x by simp
qed

lemma in_score_nearby:
  assumes "row \<in> set (score_nearby user_id user_tags location_tags config nearby)"
  shows "\<exists>n \<in> set nearby. distance_km row = distance_km n
           \<and> proximity_score row
               = compute_proximity_score (distance_km n) (radius_km config)"
proof -
  let ?f = "\<lambda>row. (let t = compute_taste_score user_id (map location_id nearby) user_tags
                               location_tags (location_id row);
                        p = compute_proximity_score (distance_km row) (radius_km config);
                        q = compute_quality_score row
                    in nearby_location.extend (row\<lparr>quality_score := q\<rparr>)
                         (proximal_recommendation.fields t p
                            (taste_weight config * t + proximity_weight config * p
                             + quality_weight config * q) 0))"
  let ?srt = "sort_key (\<lambda>row. - final_score row) (map ?f nearby)"
  from assms obtain x i where "(x, i) \<in> set (zip ?srt [1..int (length ?srt)])"
    and row: "row = x\<lparr>rank := i\<rparr>"
    by (auto simp: score_nearby_def Let_def)
  then have "x \<in> set ?srt" by (auto dest: set_zip_leftD)
  then have "x \<in> set (map ?f nearby)" by simp
  then obtain n where n: "n \<in> set nearby" and x: "x = ?f n" by auto
  have "distance_km row = distance_km n"
    "proximity_score row = compute_proximity_score (distance_km n) (radius_km config)"
    by (simp_all add: row x Let_def nearby_location.defs proximal_recommendation.defs)
  with n show ?thesis by blast
qed


text \<open>
  Claim C1. The rows returned by \<open>build_proximal_recommendations\<close> are those of its last call,
  made with the radius \<open>R\<close>, the last of \<open>expansion_radii\<close>. Every returned venue has the
  proximity score \<open>exp (- 2 * distance_km / R)\<close>: it is scored against the radius of the
  configuration of that call. That is the radius used for filtering only when some venue lies
  within \<open>R\<close>; when none does, the venues are those within \<open>2 * R\<close> and they are still scored
  against \<open>R\<close>, not against the doubled radius.
\<close>

theorem proximity_scored_against_configured_radius:
  fixes user_id center_lat center_lon locations user_tags location_tags config
  defines "R \<equiv> last (expansion_radii user_id center_lat center_lon locations user_tags
                        location_tags config)"
  shows "\<forall>row \<in> set (build_proximal_recommendations user_id center_lat center_lon locations
                        user_tags location_tags config).
           proximity_score row = exp (- 2 * distance_km row / R)
         \<and> distance_km row
             \<le> (if filter_by_radius center_lat center_lon locations R = [] then R * 2 else R)"
proof
  fix row
  assume row: "row \<in> set (build_proximal_recommendations user_id center_lat center_lon
                              locations user_tags location_tags config)"
  have eq: "build_proximal_recommendations user_id center_lat center_lon locations user_tags
              location_tags config =
     (if search_nearby center_lat center_lon locations (config\<lparr>radius_km := R\<rparr>) = []
      then []
      else head_rows (max_results config)
             (score_nearby user_id user_tags location_tags (config\<lparr>radius_km := R\<rparr>)
                (search_nearby center_lat center_lon locations (config\<lparr>radius_km := R\<rparr>))))"
    unfolding R_def by (rule build_at_last_radius)
  from row have "row \<in> set (head_rows (max_results config)
             (score_nearby user_id user_tags location_tags (config\<lparr>radius_km := R\<rparr>)
                (search_nearby center_lat center_lon locations (config\<lparr>radius_km := R\<rparr>))))"
    unfolding eq by (simp split: if_splits)
  then have "row \<in> set (score_nearby user_id user_tags location_tags (config\<lparr>radius_km := R\<rparr>)
                (search_nearby center_lat center_lon locations (config\<lparr>radius_km := R\<rparr>)))"
    by (rule set_head_rows [THEN subsetD])
  from in_score_nearby [OF this] obtain n where
    n: "n \<in> set (search_nearby center_lat center_lon locations (config\<lparr>radius_km := R\<rparr>))"
    and d: "distance_km row = distance_km n"
    and p: "proximity_score row = compute_proximity_score (distance_km n) R"
    by (auto simp del: length_score_nearby)
  have "distance_km n
      \<le> (if filter_by_radius center_lat center_lon locations R = [] then R * 2 else R)"
  proof (cases "filter_by_radius center_lat center_lon locations R = []")
    case True
    with n have "n \<in> set (filter_by_radius center_lat center_lon locations (R * 2))"
      by (simp add: search_nearby_def Let_def)
    from in_filter_by_radius [OF this] True show ?thesis by simp
  next
    case False
    with n have "n \<in> set (filter_by_radius center_lat center_lon locations R)"
      by (simp add: search_nearby_def Let_def)
    from in_filter_by_radius [OF this] False show ?thesis by simp
  qed
  with d p show "proximity_score row = exp (- 2 * distance_km row / R)
         \<and> distance_km row
             \<le> (if filter_by_radius center_lat center_lon locations R = [] then R * 2 else R)"
    by (simp add: compute_proximity_score_def)
qed

text \<open>The centre \<open>(0, 0)\<close>, the radius 2 km and \<open>min_results = 5\<close>, with three venues
  between 2 km and 4 km: none within 2 km, three within 4 km and no more within 6 km. The
  three are returned with the score \<open>exp (- 2 * distance_km / 2)\<close>, which is less than the
  score \<open>exp (- 2 * distance_km / 4)\<close> against the doubled radius.\<close>

theorem proximity_scored_against_configured_radius_witness:
  "filter_by_radius 0 0 ring_venues 2 = []
   \<and> length (filter_by_radius 0 0 ring_venues 4) = 3
   \<and> length (build_proximal_recommendations ''u1'' 0 0 ring_venues [] []
               example_proximal_config) = 3
   \<and> list_all (\<lambda>row. 2 < distance_km row \<and> distance_km row \<le> 4
                     \<and> proximity_score row = exp (- 2 * distance_km row / 2)
                     \<and> proximity_score row < exp (- 2 * distance_km row / 4))
        (build_proximal_recommendations ''u1'' 0 0 ring_venues [] [] example_proximal_config)"
proof -
  let ?out = "build_proximal_recommendations ''u1'' 0 0 ring_venues [] [] example_proximal_config"
  note radii = ring_radii [of "''u1''" "[]" "[]"]
  have e: "filter_by_radius 0 0 ring_venues 2 = []"
    using ring_counts(1) by simp
  have cfg: "example_proximal_config\<lparr>radius_km := 2\<rparr> = example_proximal_config"
    "radius_km example_proximal_config = 2" "max_results example_proximal_config = 50"
    by (simp_all add: example_proximal_config_def)
  have s: "search_nearby 0 0 ring_venues example_proximal_config
             = filter_by_radius 0 0 ring_venues 4"
    by (simp add: search_nearby_def Let_def cfg e)
  have out: "?out = head_rows 50 (score_nearby ''u1'' [] [] example_proximal_config
                       (filter_by_radius 0 0 ring_venues 4))"
    using ring_counts(2)
    by (subst build_at_last_radius) (auto simp: radii cfg s)
  have len: "length ?out = 3"
    by (simp add: out length_head_rows ring_counts)
  have rows: "2 < distance_km row \<and> distance_km row \<le> 4
                     \<and> proximity_score row = exp (- 2 * distance_km row / 2)
                     \<and> proximity_score row < exp (- 2 * distance_km row / 4)"
    if row: "row \<in> set ?out" for row
  proof -
    from proximity_scored_against_configured_radius
           [of "''u1''" 0 0 ring_venues "[]" "[]" example_proximal_config] row
    have p: "proximity_score row = exp (- 2 * distance_km row / 2)"
      and le: "distance_km row \<le> 4"
      by (simp_all add: radii e)
    from row have "row \<in> set (score_nearby ''u1'' [] [] example_proximal_config
                       (filter_by_radius 0 0 ring_venues 4))"
      unfolding out by (rule set_head_rows [THEN subsetD])
    from in_score_nearby [OF this] obtain n where
      n: "n \<in> set (filter_by_radius 0 0 ring_venues 4)" and d: "distance_km row = distance_km n"
      by (auto simp del: length_score_nearby)
    from in_filter_by_radius [OF n] have
      "Some (distance_km n) \<in> set (calculate_distances 0 0 ring_venues)" by simp
    then have gt: "2 < distance_km n"
      using ring_distances by (auto simp: ring_venues_def equator_distances)
    with d have "2 < distance_km row" by simp
    moreover from this have "exp (- 2 * distance_km row / 2) < exp (- 2 * distance_km row / 4)"
      by simp
    ultimately show ?thesis using p le by simp
  qed
  have "list_all (\<lambda>row. 2 < distance_km row \<and> distance_km row \<le> 4
                     \<and> proximity_score row = exp (- 2 * distance_km row / 2)
                     \<and> proximity_score row < exp (- 2 * distance_km row / 4)) ?out"
    unfolding list_all_iff using rows by blast
  with e ring_counts(2) len show ?thesis by (intro conjI)
qed




end
